theory Spec2Isabelle
  imports Complex_Main "HOL-Library.Sublist"
begin

section \<open>Route safety scoring and route selection of the safe-route client\<close>

text \<open>
  The development embeds the scoring pipeline of
  \<^verbatim>\<open>safe-route/src/components/RouteSearch.tsx\<close>: \<^verbatim>\<open>calculateCrimeDensity\<close>,
  \<^verbatim>\<open>calculateRouteSafetyScore\<close>, \<^verbatim>\<open>getSafetyGrade\<close>, \<^verbatim>\<open>identifyHighRiskAreas\<close> and the
  processing and selection steps of \<^verbatim>\<open>calculateRoute\<close>.

  JavaScript numbers are modelled as exact reals; the one non-real value that the code can
  meet on its inputs, \<^verbatim>\<open>NaN\<close> from \<^verbatim>\<open>parseFloat\<close>, is modelled as \<open>None\<close> of an option.
  Rounding of IEEE doubles and the infinities are outside the model.
  Strings are lists of 8-bit characters and \<^verbatim>\<open>toLowerCase\<close> maps the ASCII capitals.
\<close>

subsection \<open>Strings\<close>

definition toLowerCase_char :: "char \<Rightarrow> char" where
  "toLowerCase_char c =
     (case map_of (zip ''ABCDEFGHIJKLMNOPQRSTUVWXYZ'' ''abcdefghijklmnopqrstuvwxyz'') c of
        Some l \<Rightarrow> l
      | None \<Rightarrow> c)"

definition toLowerCase :: "string \<Rightarrow> string" where
  "toLowerCase s = map toLowerCase_char s"

fun startsWith :: "string \<Rightarrow> string \<Rightarrow> bool" where
  "startsWith s [] = True"
| "startsWith [] (p # ps) = False"
| "startsWith (c # s) (p # ps) = (c = p \<and> startsWith s ps)"

text \<open>\<^verbatim>\<open>s.includes(p)\<close>: \<open>p\<close> occurs in \<open>s\<close> as a contiguous substring.\<close>

fun str_includes :: "string \<Rightarrow> string \<Rightarrow> bool" where
  "str_includes [] p = (p = [])"
| "str_includes (c # s) p = (startsWith (c # s) p \<or> str_includes s p)"

text \<open>
  An optional string field: \<open>None\<close> when the record has no such field (\<^verbatim>\<open>undefined\<close>).
  \<^verbatim>\<open>a || b\<close> yields \<open>b\<close> when \<open>a\<close> is \<^verbatim>\<open>undefined\<close> or the empty string.
\<close>

definition or_str :: "string option \<Rightarrow> string \<Rightarrow> string" where
  "or_str a b = (case a of None \<Rightarrow> b | Some s \<Rightarrow> if s = [] then b else s)"

subsection \<open>Incident records and the density estimator\<close>

text \<open>
  The fields of \<^verbatim>\<open>CrimeData\<close> that the scoring code reads. \<open>latitude\<close> and \<open>longitude\<close>
  hold the value of \<^verbatim>\<open>parseFloat(crime.latitude)\<close> and \<^verbatim>\<open>parseFloat(crime.longitude)\<close>:
  \<open>Some x\<close> when the string parses to the number \<open>x\<close>, \<open>None\<close> when it does not
  (\<^verbatim>\<open>NaN\<close>).
\<close>

record CrimeData =
  incident_category :: "string option"
  incident_description :: "string option"
  latitude :: "real option"
  longitude :: "real option"

text \<open>
  \<^verbatim>\<open>Math.sqrt(dLat*dLat + dLon*dLon)\<close> with
  \<^verbatim>\<open>dLat = parseFloat(crime.latitude) - lat\<close>, \<^verbatim>\<open>dLon = parseFloat(crime.longitude) - lon\<close>;
  \<^verbatim>\<open>NaN\<close> propagates through the arithmetic.
\<close>

definition crime_distance :: "CrimeData \<Rightarrow> real \<Rightarrow> real \<Rightarrow> real option" where
  "crime_distance crime lat lon =
     (case latitude crime of
        None \<Rightarrow> None
      | Some la \<Rightarrow>
          (case longitude crime of
             None \<Rightarrow> None
           | Some lo \<Rightarrow>
               (let dLat = la - lat; dLon = lo - lon
                in Some (sqrt (dLat * dLat + dLon * dLon)))))"

text \<open>The comparisons \<^verbatim>\<open>a > b\<close> and \<^verbatim>\<open>a < b\<close> of JavaScript: false when \<open>a\<close> is \<^verbatim>\<open>NaN\<close>.\<close>

definition js_gt :: "real option \<Rightarrow> real \<Rightarrow> bool" where
  "js_gt a b = (case a of None \<Rightarrow> False | Some x \<Rightarrow> x > b)"

definition js_lt :: "real option \<Rightarrow> real \<Rightarrow> bool" where
  "js_lt a b = (case a of None \<Rightarrow> False | Some x \<Rightarrow> x < b)"

text \<open>
  The weight chain of \<^verbatim>\<open>calculateCrimeDensity\<close>. The source also computes
  \<^verbatim>\<open>desc = (crime.incident_description || '').toLowerCase()\<close> and never reads it.
\<close>

definition crime_weight :: "CrimeData \<Rightarrow> real" where
  "crime_weight crime =
     (let category = toLowerCase (or_str (incident_category crime) [])
      in if str_includes category ''assault'' \<or> str_includes category ''robbery'' then 8
         else if str_includes category ''burglary'' \<or> str_includes category ''theft''
                 \<or> str_includes category ''larceny'' then 5
         else if str_includes category ''arson'' then 6
         else if str_includes category ''fraud'' then 3
         else if str_includes category ''vehicle'' \<or> str_includes category ''auto'' then 3
         else 1)"

definition default_radius :: real where
  "default_radius = 0.005"

text \<open>
  \<^verbatim>\<open>crimeData.reduce((sum, crime) => ..., 0)\<close>. \<open>crimeData\<close> is component state in the
  source and an explicit argument here.
\<close>

definition calculateCrimeDensity :: "CrimeData list \<Rightarrow> real \<Rightarrow> real \<Rightarrow> real \<Rightarrow> real" where
  "calculateCrimeDensity crimeData lat lon radius =
     foldl (\<lambda>sum crime.
              if js_gt (crime_distance crime lat lon) radius then sum
              else sum + crime_weight crime)
           0 crimeData"

subsection \<open>The route scorer\<close>

text \<open>\<^verbatim>\<open>coordinates.filter((_, index) => index % 5 === 0)\<close>\<close>

definition samplePoints :: "(real \<times> real) list \<Rightarrow> (real \<times> real) list" where
  "samplePoints coordinates =
     map fst (filter (\<lambda>(coord, index). index mod 5 = 0)
                     (zip coordinates [0..<length coordinates]))"

text \<open>
  One pass of the \<^verbatim>\<open>forEach\<close> body over the two accumulators
  \<^verbatim>\<open>totalCrimeScore\<close> and \<^verbatim>\<open>maxCrimeAtPoint\<close>.
\<close>

definition score_step :: "CrimeData list \<Rightarrow> real \<times> real \<Rightarrow> real \<times> real \<Rightarrow> real \<times> real" where
  "score_step crimeData acc coord =
     (let crimeScore = calculateCrimeDensity crimeData (fst coord) (snd coord) default_radius
      in (fst acc + crimeScore, max (snd acc) crimeScore))"

definition calculateRouteSafetyScore :: "CrimeData list \<Rightarrow> (real \<times> real) list \<Rightarrow> real" where
  "calculateRouteSafetyScore crimeData coordinates =
     (if length coordinates = 0 \<or> length crimeData = 0 then 85
      else
        (let acc = foldl (score_step crimeData) (0, 0) (samplePoints coordinates);
             totalCrimeScore = fst acc;
             maxCrimeAtPoint = snd acc;
             avgCrimeScore = totalCrimeScore / real (length (samplePoints coordinates));
             normalizedAvg = min (avgCrimeScore / 300) 1.5;
             normalizedMax = min (maxCrimeAtPoint / 500) 1.5;
             safetyScore = 90 - (normalizedAvg * 20 + normalizedMax * 25);
             finalScore = max 0 (min 100 safetyScore)
         in finalScore))"

datatype grade = A | B | C | D | F

definition getSafetyGrade :: "real \<Rightarrow> grade" where
  "getSafetyGrade score =
     (if score \<ge> 90 then A
      else if score \<ge> 80 then B
      else if score \<ge> 70 then C
      else if score \<ge> 60 then D
      else F)"

subsection \<open>The risk segment locator\<close>

datatype risk_level = high | medium

record RiskArea =
  lat :: real
  lng :: real
  risk :: risk_level
  description :: string

text \<open>\<^verbatim>\<open>c.incident_category || c.incident_description\<close>, \<open>None\<close> being \<^verbatim>\<open>undefined\<close>.\<close>

definition crime_label :: "CrimeData \<Rightarrow> string option" where
  "crime_label c =
     (case incident_category c of
        None \<Rightarrow> incident_description c
      | Some s \<Rightarrow> if s = [] then incident_description c else Some s)"

text \<open>The property name under which \<^verbatim>\<open>acc[crime]\<close> stores a label.\<close>

definition property_key :: "string option \<Rightarrow> string" where
  "property_key v = (case v of None \<Rightarrow> ''undefined'' | Some s \<Rightarrow> s)"

text \<open>
  \<^verbatim>\<open>acc[crime] = (acc[crime] || 0) + 1\<close> on an object kept as an association list in
  insertion order. Labels that name a property inherited from \<^verbatim>\<open>Object.prototype\<close>
  (such as \<^verbatim>\<open>constructor\<close>) are outside the model.
\<close>

fun count_key :: "(string \<times> nat) list \<Rightarrow> string \<Rightarrow> (string \<times> nat) list" where
  "count_key [] k = [(k, 1)]"
| "count_key ((k', n) # acc) k =
     (if k' = k then (k', n + 1) # acc else (k', n) # count_key acc k)"

definition digit_value :: "char \<Rightarrow> nat option" where
  "digit_value c =
     map_of [(CHR ''0'', 0), (CHR ''1'', 1), (CHR ''2'', 2), (CHR ''3'', 3), (CHR ''4'', 4),
             (CHR ''5'', 5), (CHR ''6'', 6), (CHR ''7'', 7), (CHR ''8'', 8), (CHR ''9'', 9)] c"

definition decimal_value :: "string \<Rightarrow> nat" where
  "decimal_value s = foldl (\<lambda>n c. 10 * n + (case digit_value c of Some d \<Rightarrow> d | None \<Rightarrow> 0)) 0 s"

text \<open>
  An array index is a canonical decimal numeral below \<open>2\<^sup>3\<^sup>2 - 1\<close>;
  \<^verbatim>\<open>Object.entries\<close> lists such keys first, in ascending order, and the other keys after
  them in insertion order.
\<close>

definition is_array_index :: "string \<Rightarrow> bool" where
  "is_array_index s =
     (s \<noteq> [] \<and> list_all (\<lambda>c. digit_value c \<noteq> None) s
      \<and> (s = ''0'' \<or> hd s \<noteq> CHR ''0'')
      \<and> decimal_value s < 4294967295)"

definition Object_entries :: "(string \<times> nat) list \<Rightarrow> (string \<times> nat) list" where
  "Object_entries obj =
     sort_key (\<lambda>e. decimal_value (fst e)) (filter (\<lambda>e. is_array_index (fst e)) obj)
     @ filter (\<lambda>e. \<not> is_array_index (fst e)) obj"

fun show_nat :: "nat \<Rightarrow> string" where
  "show_nat n =
     (if n < 10 then [''0123456789'' ! n]
      else show_nat (n div 10) @ [''0123456789'' ! (n mod 10)])"

text \<open>
  The description of a flagged point: the most frequent label among the incidents with
  \<^verbatim>\<open>distance < 0.005\<close>, the stable \<^verbatim>\<open>sort(([,a], [,b]) => b - a)\<close> keeping the order of
  \<^verbatim>\<open>Object.entries\<close> among equal counts.
\<close>

definition risk_description :: "CrimeData list \<Rightarrow> real \<times> real \<Rightarrow> string" where
  "risk_description crimeData coord =
     (let nearbyIncidents =
            filter (\<lambda>crime. js_lt (crime_distance crime (fst coord) (snd coord)) 0.005) crimeData;
          commonCrimes =
            foldl count_key [] (map (\<lambda>c. property_key (crime_label c)) nearbyIncidents);
          sorted = sort_key (\<lambda>e. - int (snd e)) (Object_entries commonCrimes)
      in case sorted of
           [] \<Rightarrow> ''High crime activity detected''
         | topCrime # _ \<Rightarrow>
             ''High '' @ toLowerCase (fst topCrime) @ '' activity (''
               @ show_nat (snd topCrime) @ '' incidents)'')"

text \<open>The body of the \<^verbatim>\<open>forEach\<close> callback; \<open>areas\<close> is \<^verbatim>\<open>highRiskAreas\<close>.\<close>

definition risk_step ::
  "CrimeData list \<Rightarrow> RiskArea list \<Rightarrow> (real \<times> real) \<times> nat \<Rightarrow> RiskArea list" where
  "risk_step crimeData areas ci =
     (let coord = fst ci; index = snd ci
      in if index mod 10 = 0 then
           (let crimeScore =
                  calculateCrimeDensity crimeData (fst coord) (snd coord) default_radius
            in if crimeScore > 15 then
                 (let riskLevel = (if crimeScore > 50 then high else medium);
                      riskArea = \<lparr>lat = fst coord, lng = snd coord, risk = riskLevel,
                                  description = risk_description crimeData coord\<rparr>
                  in areas @ [riskArea])
               else areas)
         else areas)"

definition identifyHighRiskAreas :: "CrimeData list \<Rightarrow> (real \<times> real) list \<Rightarrow> RiskArea list" where
  "identifyHighRiskAreas crimeData coordinates =
     foldl (risk_step crimeData) [] (zip coordinates [0..<length coordinates])"

subsection \<open>Processing the alternatives\<close>

text \<open>
  One alternative of the routing response: \<^verbatim>\<open>route.geometry.coordinates\<close> (pairs of
  longitude and latitude), \<^verbatim>\<open>route.distance\<close> and \<^verbatim>\<open>route.duration\<close>.
\<close>

record RawRoute =
  geometry_coordinates :: "(real \<times> real) list"
  distance :: real
  duration :: real

record RouteDetails =
  distance_meters :: real
  duration_seconds :: real

datatype route_type = alternative | fastest | safest | fastest_safest

text \<open>
  The processed route. The display strings \<^verbatim>\<open>name\<close>, \<^verbatim>\<open>distance\<close> and \<^verbatim>\<open>duration\<close>, the
  statistics \<^verbatim>\<open>crimeStats\<close> and the opaque \<^verbatim>\<open>details.legs\<close> are carried along by the
  source and read by no step modelled here; they are left out.
\<close>

record ProcessedRoute =
  index :: nat
  type :: route_type
  safetyScore :: real
  safetyGrade :: grade
  coordinates :: "(real \<times> real) list"
  highRiskAreas :: "RiskArea list"
  details :: RouteDetails

text \<open>\<^verbatim>\<open>Math.round\<close>: the nearest integer, a tie going up.\<close>

definition Math_round :: "real \<Rightarrow> real" where
  "Math_round x = of_int \<lfloor>x + 1 / 2\<rfloor>"

definition processRoute :: "CrimeData list \<Rightarrow> RawRoute \<Rightarrow> nat \<Rightarrow> ProcessedRoute" where
  "processRoute crimeData route i =
     (let coords = map (\<lambda>coord. (snd coord, fst coord)) (geometry_coordinates route);
          score = calculateRouteSafetyScore crimeData coords
      in \<lparr>index = i,
          type = alternative,
          safetyScore = Math_round score,
          safetyGrade = getSafetyGrade score,
          coordinates = coords,
          highRiskAreas = identifyHighRiskAreas crimeData coords,
          details = \<lparr>distance_meters = distance route, duration_seconds = duration route\<rparr>\<rparr>)"

definition processedRoutes :: "CrimeData list \<Rightarrow> RawRoute list \<Rightarrow> ProcessedRoute list" where
  "processedRoutes crimeData routesData =
     map (\<lambda>ri. processRoute crimeData (fst ri) (snd ri))
         (zip routesData [0..<length routesData])"

subsection \<open>Selecting the fastest and the safest route\<close>

text \<open>
  The processed routes are objects, and \<^verbatim>\<open>fastestRoute\<close>, \<^verbatim>\<open>safestRoute\<close> and the entries
  of \<^verbatim>\<open>finalRoutes\<close> are references to them: the store is the list of the objects and a
  reference is a position in it. \<^verbatim>\<open>[...processedRoutes].sort(cmp)[0]\<close> is the head of a
  stable sort of the references; \<open>cmp\<close> is \<^verbatim>\<open>a.details.duration_seconds - b.details.duration_seconds\<close>
  for the fastest route and \<^verbatim>\<open>b.safetyScore - a.safetyScore\<close> for the safest.
  The function returns \<^verbatim>\<open>finalRoutes\<close> and the store after the assignments to
  \<^verbatim>\<open>type\<close> and \<^verbatim>\<open>index\<close>; the store must not be empty.
\<close>

definition selectRoutes :: "ProcessedRoute list \<Rightarrow> nat list \<times> ProcessedRoute list" where
  "selectRoutes store0 =
     (let refs = [0..<length store0];
          fastestRoute = hd (sort_key (\<lambda>r. duration_seconds (details (store0 ! r))) refs);
          store1 = store0[fastestRoute := (store0 ! fastestRoute)\<lparr>type := fastest\<rparr>];
          safestRoute = hd (sort_key (\<lambda>r. - safetyScore (store1 ! r)) refs);
          store2 = store1[safestRoute := (store1 ! safestRoute)\<lparr>type := safest\<rparr>];
          differ =
            (distance_meters (details (store2 ! fastestRoute))
               \<noteq> distance_meters (details (store2 ! safestRoute))
             \<or> duration_seconds (details (store2 ! fastestRoute))
               \<noteq> duration_seconds (details (store2 ! safestRoute)));
          finalRoutes = (if differ then [fastestRoute, safestRoute] else [fastestRoute]);
          store3 =
            (if differ then store2
             else store2[fastestRoute := (store2 ! fastestRoute)\<lparr>type := fastest_safest\<rparr>]);
          store4 =
            foldl (\<lambda>st ri. st[fst ri := (st ! fst ri)\<lparr>index := snd ri\<rparr>]) store3
                  (zip finalRoutes [0..<length finalRoutes])
      in (finalRoutes, store4))"

text \<open>
  \<^verbatim>\<open>finalRoutes.find(r => r.type === 'safest') || finalRoutes.find(r => r.type === 'fastest_safest')
  || finalRoutes.find(r => r.type === 'fastest') || finalRoutes[0]\<close>;
  \<open>None\<close> is the \<^verbatim>\<open>undefined\<close> of an empty list.
\<close>

definition defaultRoute :: "ProcessedRoute list \<Rightarrow> ProcessedRoute option" where
  "defaultRoute finalRoutes =
     (case find (\<lambda>r. type r = safest) finalRoutes of
        Some r \<Rightarrow> Some r
      | None \<Rightarrow>
          (case find (\<lambda>r. type r = fastest_safest) finalRoutes of
             Some r \<Rightarrow> Some r
           | None \<Rightarrow>
               (case find (\<lambda>r. type r = fastest) finalRoutes of
                  Some r \<Rightarrow> Some r
                | None \<Rightarrow> (case finalRoutes of [] \<Rightarrow> None | r # _ \<Rightarrow> Some r))))"

datatype error = NoRoutes | TypeError

text \<open>
  Steps 3 and 4 of \<^verbatim>\<open>calculateRoute\<close>, from the routing response to the routes handed to
  \<^verbatim>\<open>setRoutes\<close> and the route handed to \<^verbatim>\<open>displayRoute\<close>. An empty response throws
  \<^verbatim>\<open>Error('Could not calculate any routes via API.')\<close>.
\<close>

definition calculateRoute ::
  "CrimeData list \<Rightarrow> RawRoute list \<Rightarrow> error + ProcessedRoute list \<times> ProcessedRoute" where
  "calculateRoute crimeData routesData =
     (if length routesData = 0 then Inl NoRoutes
      else
        (let sel = selectRoutes (processedRoutes crimeData routesData);
             routes = map (\<lambda>r. snd sel ! r) (fst sel)
         in case defaultRoute routes of
              None \<Rightarrow> Inl TypeError
            | Some r \<Rightarrow> Inr (routes, r)))"

subsection \<open>Notions used to state the properties\<close>

text \<open>The density at a route point with the default radius, as every caller computes it.\<close>

definition point_density :: "CrimeData list \<Rightarrow> real \<times> real \<Rightarrow> real" where
  "point_density crimeData p = calculateCrimeDensity crimeData (fst p) (snd p) default_radius"

text \<open>The positions below \<open>n\<close> that are divisible by the stride \<open>k\<close>, in ascending order.\<close>

definition sample_indices :: "nat \<Rightarrow> nat \<Rightarrow> nat list" where
  "sample_indices k n = filter (\<lambda>i. k dvd i) [0..<n]"

definition sampled_densities :: "CrimeData list \<Rightarrow> (real \<times> real) list \<Rightarrow> real list" where
  "sampled_densities crimeData cs =
     map (\<lambda>i. point_density crimeData (cs ! i)) (sample_indices 5 (length cs))"

text \<open>The mean and the maximum of the densities at the sampled points of a route.\<close>

definition avg_density :: "CrimeData list \<Rightarrow> (real \<times> real) list \<Rightarrow> real" where
  "avg_density crimeData cs =
     sum_list (sampled_densities crimeData cs) / real (length (sampled_densities crimeData cs))"

definition max_density :: "CrimeData list \<Rightarrow> (real \<times> real) list \<Rightarrow> real" where
  "max_density crimeData cs = Max (set (sampled_densities crimeData cs))"

text \<open>
  The reading of the density contract in the specification. An incident is within the
  radius when its coordinates are numbers and the Euclidean distance on raw latitude and
  longitude is at most the radius.
\<close>

definition within_radius :: "CrimeData \<Rightarrow> real \<Rightarrow> real \<Rightarrow> real \<Rightarrow> bool" where
  "within_radius c la lo radius =
     (case latitude c of
        None \<Rightarrow> False
      | Some a \<Rightarrow>
          (case longitude c of
             None \<Rightarrow> False
           | Some b \<Rightarrow> sqrt ((a - la)\<^sup>2 + (b - lo)\<^sup>2) \<le> radius))"

text \<open>
  The weight table of the specification on a text, matched without regard to case, the
  first matching row winning; a vehicle-related text is one that contains
  \<^verbatim>\<open>vehicle\<close> or \<^verbatim>\<open>auto\<close>.
\<close>

definition weight_of_text :: "string \<Rightarrow> real" where
  "weight_of_text t =
     (let s = toLowerCase t
      in if sublist ''assault'' s \<or> sublist ''robbery'' s then 8
         else if sublist ''burglary'' s \<or> sublist ''theft'' s \<or> sublist ''larceny'' s then 5
         else if sublist ''arson'' s then 6
         else if sublist ''fraud'' s then 3
         else if sublist ''vehicle'' s \<or> sublist ''auto'' s then 3
         else 1)"

text \<open>
  The weight as the specification words it: the table applied to the category and, where
  the category is absent, to the description.
\<close>

definition spec_weight :: "CrimeData \<Rightarrow> real" where
  "spec_weight c =
     weight_of_text (or_str (incident_category c) (or_str (incident_description c) []))"

definition spec_density :: "CrimeData list \<Rightarrow> real \<Rightarrow> real \<Rightarrow> real \<Rightarrow> real" where
  "spec_density incidents la lo radius =
     sum_list (map spec_weight (filter (\<lambda>c. within_radius c la lo radius) incidents))"

text \<open>The table applied to the category alone, an absent category being the empty text.\<close>

definition category_weight :: "CrimeData \<Rightarrow> real" where
  "category_weight c = weight_of_text (or_str (incident_category c) [])"

text \<open>The segment that the locator emits for a flagged point.\<close>

definition risk_area_of :: "CrimeData list \<Rightarrow> real \<times> real \<Rightarrow> RiskArea" where
  "risk_area_of crimeData p =
     \<lparr>lat = fst p, lng = snd p,
      risk = (if point_density crimeData p > 50 then high else medium),
      description = risk_description crimeData p\<rparr>"

text \<open>The order of the grades, \<open>F\<close> lowest.\<close>

definition grade_rank :: "grade \<Rightarrow> nat" where
  "grade_rank g = (case g of A \<Rightarrow> 4 | B \<Rightarrow> 3 | C \<Rightarrow> 2 | D \<Rightarrow> 1 | F \<Rightarrow> 0)"

text \<open>The routes that the selection hands to \<^verbatim>\<open>setRoutes\<close>: the final references read in the final store.\<close>

definition selected_routes :: "ProcessedRoute list \<Rightarrow> ProcessedRoute list" where
  "selected_routes store0 = map (\<lambda>r. snd (selectRoutes store0) ! r) (fst (selectRoutes store0))"

text \<open>An incident with a category and parsed coordinates, for the worked examples.\<close>

definition incident_at :: "string \<Rightarrow> real \<Rightarrow> real \<Rightarrow> CrimeData" where
  "incident_at cat la lo =
     \<lparr>incident_category = Some cat, incident_description = None,
      latitude = Some la, longitude = Some lo\<rparr>"

section \<open>Properties\<close>

subsection \<open>Auxiliary facts\<close>

lemma startsWith_prefix: "startsWith t q = prefix q t"
  by (induction t q rule: startsWith.induct) auto

lemma str_includes_sublist: "str_includes s p = sublist p s"
  by (induction s) (simp_all add: startsWith_prefix sublist_Cons_right)

lemma crime_weight_pos: "1 \<le> crime_weight c"
  by (simp add: crime_weight_def Let_def)

lemma foldl_density:
  "foldl (\<lambda>sum crime. if P crime then sum else sum + w crime) a xs
     = a + sum_list (map w (filter (\<lambda>c. \<not> P c) xs))" for a :: real
  by (induction xs arbitrary: a) simp_all

lemma density_sum:
  "calculateCrimeDensity crimeData la lo radius =
     sum_list (map crime_weight
       (filter (\<lambda>c. \<not> js_gt (crime_distance c la lo) radius) crimeData))"
  by (simp add: calculateCrimeDensity_def foldl_density)

lemma density_nonneg: "0 \<le> calculateCrimeDensity crimeData la lo radius"
proof -
  have "0 \<le> crime_weight c" for c
    using crime_weight_pos [of c] by linarith
  then show ?thesis
    unfolding density_sum by (intro sum_list_nonneg) auto
qed

lemma samplePoints_nth:
  "samplePoints cs = map (\<lambda>i. cs ! i) (sample_indices 5 (length cs))"
proof -
  have "zip cs [0..<length cs] = map (\<lambda>i. (cs ! i, i)) [0..<length cs]"
    by (rule nth_equalityI) simp_all
  then show ?thesis
    by (simp add: samplePoints_def sample_indices_def filter_map comp_def dvd_eq_mod_eq_0)
qed

lemma sample_indices_Cons:
  "0 < n \<Longrightarrow> 0 < k \<Longrightarrow> \<exists>is. sample_indices k n = 0 # is"
  by (cases n) (simp_all add: sample_indices_def upt_rec [of 0])

lemma set_sample_indices: "set (sample_indices k n) = {i. i < n \<and> k dvd i}"
  by (auto simp: sample_indices_def)

lemma samplePoints_nonempty: "cs \<noteq> [] \<Longrightarrow> samplePoints cs \<noteq> []"
  using sample_indices_Cons [of "length cs" 5] by (auto simp: samplePoints_nth)

lemma foldl_score_step:
  "foldl (score_step cd) acc ps =
     (fst acc + sum_list (map (point_density cd) ps),
      foldl max (snd acc) (map (point_density cd) ps))"
  by (induction ps arbitrary: acc) (simp_all add: score_step_def point_density_def Let_def)

lemma foldl_max_Cons:
  "foldl max m (x # xs) = max m (Max (set (x # xs)))" for m :: real
proof (induction xs arbitrary: m x)
  case Nil
  then show ?case by simp
next
  case (Cons y ys)
  have "foldl max m (x # y # ys) = foldl max (max m x) (y # ys)"
    by simp
  also have "\<dots> = max (max m x) (Max (set (y # ys)))"
    by (rule Cons.IH)
  also have "\<dots> = max m (max x (Max (set (y # ys))))"
    by (simp add: max.assoc)
  also have "max x (Max (set (y # ys))) = Max (set (x # y # ys))"
    by simp
  finally show ?case .
qed

lemma foldl_max_nonneg:
  fixes xs :: "real list"
  assumes "xs \<noteq> []" "\<forall>x \<in> set xs. 0 \<le> x"
  shows "foldl max 0 xs = Max (set xs)"
proof -
  obtain y ys where xs: "xs = y # ys"
    using assms(1) by (cases xs) auto
  have "0 \<le> y" using assms(2) xs by simp
  also have "y \<le> Max (set xs)" using xs by simp
  finally have "0 \<le> Max (set xs)" .
  then show ?thesis
    using foldl_max_Cons [of 0 y ys] xs by (simp add: max_def)
qed

lemma sampled_densities_map:
  "sampled_densities cd cs = map (point_density cd) (samplePoints cs)"
  by (simp add: sampled_densities_def samplePoints_nth comp_def)

lemma score_formula:
  assumes "cs \<noteq> []" "cd \<noteq> []"
  shows "calculateRouteSafetyScore cd cs =
     max 0 (min 100 (90 -
       (min (sum_list (sampled_densities cd cs) / real (length (sampled_densities cd cs)) / 300) 1.5 * 20
        + min (Max (set (sampled_densities cd cs)) / 500) 1.5 * 25)))"
proof -
  have ne: "sampled_densities cd cs \<noteq> []"
    using samplePoints_nonempty [OF assms(1)] by (simp add: sampled_densities_map)
  have nn: "\<forall>x \<in> set (sampled_densities cd cs). 0 \<le> x"
    by (auto simp: sampled_densities_map point_density_def density_nonneg)
  show ?thesis
    using assms foldl_max_nonneg [OF ne nn]
    by (simp add: calculateRouteSafetyScore_def foldl_score_step Let_def sampled_densities_map)
qed


lemma sqrt_gt_iff: "0 \<le> x \<Longrightarrow> (r < sqrt x) = (r < 0 \<or> r * r < x)"
proof (cases "r < 0")
  case True
  assume "0 \<le> x"
  then have "0 \<le> sqrt x" by simp
  with True have "r < sqrt x" by linarith
  with True show ?thesis by simp
next
  case False
  assume x: "0 \<le> x"
  have "r = sqrt (r * r)" using False by simp
  then have "(r < sqrt x) = (sqrt (r * r) < sqrt x)" by simp
  also have "\<dots> = (r * r < x)" by (rule real_sqrt_less_iff)
  finally show ?thesis using False by simp
qed

lemma sqrt_lt_iff: "0 \<le> x \<Longrightarrow> (sqrt x < r) = (0 < r \<and> x < r * r)"
proof (cases "0 < r")
  case False
  assume "0 \<le> x"
  then have "0 \<le> sqrt x" by simp
  with False have "\<not> sqrt x < r" by linarith
  with False show ?thesis by simp
next
  case True
  assume x: "0 \<le> x"
  have "r = sqrt (r * r)" using True by simp
  then have "(sqrt x < r) = (sqrt x < sqrt (r * r))" by simp
  also have "\<dots> = (x < r * r)" by (rule real_sqrt_less_iff)
  finally show ?thesis using True by simp
qed

lemma js_gt_distance:
  "js_gt (crime_distance c la lo) r =
     (case latitude c of
        None \<Rightarrow> False
      | Some a \<Rightarrow>
          (case longitude c of
             None \<Rightarrow> False
           | Some b \<Rightarrow> r < 0 \<or> r * r < (a - la) * (a - la) + (b - lo) * (b - lo)))"
  by (simp add: js_gt_def crime_distance_def Let_def sqrt_gt_iff split: option.splits)

lemma js_lt_distance:
  "js_lt (crime_distance c la lo) r =
     (case latitude c of
        None \<Rightarrow> False
      | Some a \<Rightarrow>
          (case longitude c of
             None \<Rightarrow> False
           | Some b \<Rightarrow> 0 < r \<and> (a - la) * (a - la) + (b - lo) * (b - lo) < r * r))"
  by (simp add: js_lt_def crime_distance_def Let_def sqrt_lt_iff split: option.splits)

lemmas eval_density =
  calculateCrimeDensity_def js_gt_distance crime_weight_def toLowerCase_def
  toLowerCase_char_def or_str_def default_radius_def


lemmas eval_description =
  risk_description_def js_lt_distance crime_label_def property_key_def Object_entries_def
  is_array_index_def digit_value_def decimal_value_def

lemma samplePoints_hd: "cs \<noteq> [] \<Longrightarrow> hd (samplePoints cs) = hd cs"
  using sample_indices_Cons [of "length cs" 5]
  by (auto simp: samplePoints_nth hd_conv_nth)

lemma sum_list_nonneg_eq_0:
  fixes xs :: "real list"
  assumes "\<forall>x \<in> set xs. 0 \<le> x"
  shows "(sum_list xs = 0) = (\<forall>x \<in> set xs. x = 0)"
  using assms by (induction xs) (auto simp: add_nonneg_eq_0_iff sum_list_nonneg)

subsection \<open>The route scorer\<close>

text \<open>
  C1. For a non-empty polyline and a non-empty incident list the scorer samples exactly the
  points at the positions divisible by 5, position 0 among them, takes the density of each
  sampled point with the default radius 0.005, and returns
  \<open>90 - (normAvg * 20 + normMax * 25)\<close> clamped to \<open>[0, 100]\<close>, where \<open>normAvg\<close> is the mean
  of the sampled densities over 300 and \<open>normMax\<close> their maximum over 500, each capped at 1.5.
\<close>

theorem route_score_sampling_and_formula:
  assumes "cs \<noteq> []" and "cd \<noteq> []"
  shows "samplePoints cs = map (\<lambda>i. cs ! i) (filter (\<lambda>i. 5 dvd i) [0..<length cs])
    \<and> hd (samplePoints cs) = cs ! 0
    \<and> calculateRouteSafetyScore cd cs =
        (let ds = map (\<lambda>p. calculateCrimeDensity cd (fst p) (snd p) default_radius)
                      (samplePoints cs);
             avgDensity = sum_list ds / real (length ds);
             maxDensity = Max (set ds);
             normAvg = min (avgDensity / 300) 1.5;
             normMax = min (maxDensity / 500) 1.5
         in max 0 (min 100 (90 - (normAvg * 20 + normMax * 25))))
    \<and> default_radius = 0.005"
proof -
  have ds: "map (\<lambda>p. calculateCrimeDensity cd (fst p) (snd p) default_radius) (samplePoints cs)
      = sampled_densities cd cs"
    by (simp add: sampled_densities_map point_density_def)
  have a: "samplePoints cs = map (\<lambda>i. cs ! i) (filter (\<lambda>i. 5 dvd i) [0..<length cs])"
    by (simp add: samplePoints_nth sample_indices_def)
  have b: "hd (samplePoints cs) = cs ! 0"
    using assms(1) by (simp add: samplePoints_hd hd_conv_nth)
  have c: "calculateRouteSafetyScore cd cs =
        (let ds = map (\<lambda>p. calculateCrimeDensity cd (fst p) (snd p) default_radius)
                      (samplePoints cs);
             avgDensity = sum_list ds / real (length ds);
             maxDensity = Max (set ds);
             normAvg = min (avgDensity / 300) 1.5;
             normMax = min (maxDensity / 500) 1.5
         in max 0 (min 100 (90 - (normAvg * 20 + normMax * 25))))"
    unfolding Let_def ds by (rule score_formula [OF assms])
  have d: "default_radius = 0.005"
    by (simp add: default_radius_def)
  show ?thesis
    using a b c d by blast
qed

theorem route_score_sampling_and_formula_witness:
  "[(0, 0), (1, 1), (2, 2), (3, 3), (4, 4), (0, 0::real)] \<noteq> ([] :: (real \<times> real) list)
   \<and> [\<lparr>incident_category = Some ''Assault'', incident_description = None,
        latitude = Some 0, longitude = Some 0\<rparr>] \<noteq> []
   \<and> samplePoints [(0, 0), (1, 1), (2, 2), (3, 3), (4, 4), (0, 0)] = [(0, 0), (0, 0)]
   \<and> calculateRouteSafetyScore
        [\<lparr>incident_category = Some ''Assault'', incident_description = None,
          latitude = Some 0, longitude = Some 0\<rparr>]
        [(0, 0), (1, 1), (2, 2), (3, 3), (4, 4), (0, 0)] = 1336 / 15"
proof -
  let ?cs = "[(0, 0), (1, 1), (2, 2), (3, 3), (4, 4), (0, 0)] :: (real \<times> real) list"
  let ?cd = "[\<lparr>incident_category = Some ''Assault'', incident_description = None,
               latitude = Some 0, longitude = Some 0\<rparr>]"
  have h1: "?cs \<noteq> []" and h2: "?cd \<noteq> []"
    by simp_all
  have sp: "samplePoints ?cs = [(0, 0), (0, 0)]"
    by (simp add: samplePoints_def upt_rec)
  have d0: "calculateCrimeDensity ?cd 0 0 default_radius = 8"
    by (simp add: eval_density)
  have "calculateRouteSafetyScore ?cd ?cs =
        (let ds = map (\<lambda>p. calculateCrimeDensity ?cd (fst p) (snd p) default_radius)
                      (samplePoints ?cs);
             avgDensity = sum_list ds / real (length ds);
             maxDensity = Max (set ds);
             normAvg = min (avgDensity / 300) 1.5;
             normMax = min (maxDensity / 500) 1.5
         in max 0 (min 100 (90 - (normAvg * 20 + normMax * 25))))"
    using route_score_sampling_and_formula [OF h1 h2] by blast
  then have "calculateRouteSafetyScore ?cd ?cs = 1336 / 15"
    by (simp add: sp d0 Let_def)
  with h1 h2 sp show ?thesis
    by blast
qed

text \<open>
  C7. When the incident list is empty or the polyline is empty the scorer returns the
  neutral default 85; it is a total function, so there is no failure.
\<close>

theorem no_data_default_score:
  "cs = [] \<or> cd = [] \<Longrightarrow> calculateRouteSafetyScore cd cs = 85"
  by (auto simp: calculateRouteSafetyScore_def)

theorem no_data_default_score_witness:
  "calculateRouteSafetyScore [] [(37, -122), (38, -122)] = 85
   \<and> calculateRouteSafetyScore
        [\<lparr>incident_category = Some ''Assault'', incident_description = None,
          latitude = Some 0, longitude = Some 0\<rparr>] [] = 85
   \<and> calculateRouteSafetyScore [] [] = 85"
  using no_data_default_score [of "[(37, -122), (38, -122)]" "[]"]
    no_data_default_score [of "[]" "[\<lparr>incident_category = Some ''Assault'',
        incident_description = None, latitude = Some 0, longitude = Some 0\<rparr>]"]
    no_data_default_score [of "[]" "[]"]
  by simp

text \<open>
  C10. For a non-empty polyline and a non-empty incident list the penalty lies in
  \<open>[0, 67.5]\<close>, the clamp never acts (the score is \<open>90\<close> minus the penalty), the score lies
  in \<open>[22.5, 90]\<close>, and the grade of the score is \<open>A\<close> exactly when every sampled point
  has density 0.
\<close>

theorem computed_score_range:
  assumes "cs \<noteq> []" and "cd \<noteq> []"
  shows "(let ds = map (\<lambda>p. calculateCrimeDensity cd (fst p) (snd p) default_radius)
                      (samplePoints cs);
             penalty = min (sum_list ds / real (length ds) / 300) 1.5 * 20
                       + min (Max (set ds) / 500) 1.5 * 25;
             score = calculateRouteSafetyScore cd cs
         in 0 \<le> penalty \<and> penalty \<le> 67.5 \<and> score = 90 - penalty
            \<and> 22.5 \<le> score \<and> score \<le> 90
            \<and> (getSafetyGrade score = A) = (\<forall>d \<in> set ds. d = 0))"
proof -
  define ds where "ds = sampled_densities cd cs"
  define avg where "avg = sum_list ds / real (length ds)"
  define mx where "mx = Max (set ds)"
  define penalty where "penalty = min (avg / 300) 1.5 * 20 + min (mx / 500) 1.5 * 25"
  have dsmap: "map (\<lambda>p. calculateCrimeDensity cd (fst p) (snd p) default_radius) (samplePoints cs) = ds"
    by (simp add: ds_def sampled_densities_map point_density_def)
  have ne: "ds \<noteq> []"
    using samplePoints_nonempty [OF assms(1)] by (simp add: ds_def sampled_densities_map)
  have nn: "\<forall>x \<in> set ds. 0 \<le> x"
    by (auto simp: ds_def sampled_densities_map point_density_def density_nonneg)
  have len: "0 < real (length ds)" using ne by simp
  have sum0: "0 \<le> sum_list ds" using nn by (simp add: sum_list_nonneg)
  have avg0: "0 \<le> avg" unfolding avg_def using sum0 len by simp
  have mx_in: "mx \<in> set ds" unfolding mx_def using ne by (intro Max_in) auto
  have mx0: "0 \<le> mx" using mx_in nn by blast
  have mx_ge: "\<forall>x \<in> set ds. x \<le> mx" unfolding mx_def by simp
  have p0: "0 \<le> penalty" unfolding penalty_def using avg0 mx0 by simp
  have p1: "penalty \<le> 67.5" unfolding penalty_def
    using min.cobounded2 [of "avg / 300" "1.5"] min.cobounded2 [of "mx / 500" "1.5"] by linarith
  have "calculateRouteSafetyScore cd cs = max 0 (min 100 (90 - penalty))"
    unfolding penalty_def avg_def mx_def ds_def by (rule score_formula [OF assms])
  also have "\<dots> = 90 - penalty"
    using p0 p1 by (simp add: max_def min_def)
  finally have score: "calculateRouteSafetyScore cd cs = 90 - penalty" .
  have "(penalty = 0) = (avg = 0 \<and> mx = 0)"
  proof
    assume "penalty = 0"
    moreover have "0 \<le> min (avg / 300) 1.5 * 20" "0 \<le> min (mx / 500) 1.5 * 25"
      using avg0 mx0 by simp_all
    ultimately have "min (avg / 300) 1.5 = 0" "min (mx / 500) 1.5 = 0"
      unfolding penalty_def by linarith+
    then show "avg = 0 \<and> mx = 0"
      by (auto simp: min_def split: if_splits)
  next
    assume "avg = 0 \<and> mx = 0"
    then show "penalty = 0" by (simp add: penalty_def)
  qed
  moreover have "(avg = 0 \<and> mx = 0) = (\<forall>d \<in> set ds. d = 0)"
  proof
    assume "avg = 0 \<and> mx = 0"
    then have "\<forall>x \<in> set ds. x \<le> 0" using mx_ge by simp
    with nn show "\<forall>d \<in> set ds. d = 0" by fastforce
  next
    assume z: "\<forall>d \<in> set ds. d = 0"
    then have "sum_list ds = 0" using sum_list_nonneg_eq_0 [OF nn] by simp
    moreover have "mx = 0" using z mx_in by blast
    ultimately show "avg = 0 \<and> mx = 0" by (simp add: avg_def)
  qed
  moreover have "(getSafetyGrade (90 - penalty) = A) = (penalty = 0)"
    using p0 by (auto simp: getSafetyGrade_def)
  ultimately have "(getSafetyGrade (90 - penalty) = A) = (\<forall>d \<in> set ds. d = 0)"
    by simp
  then have "0 \<le> penalty \<and> penalty \<le> 67.5 \<and> calculateRouteSafetyScore cd cs = 90 - penalty
      \<and> 22.5 \<le> calculateRouteSafetyScore cd cs \<and> calculateRouteSafetyScore cd cs \<le> 90
      \<and> (getSafetyGrade (calculateRouteSafetyScore cd cs) = A) = (\<forall>d \<in> set ds. d = 0)"
    using p0 p1 score by simp
  then show ?thesis
    unfolding Let_def dsmap penalty_def avg_def mx_def .
qed

theorem computed_score_range_witness:
  "[(0, 0), (1, 1), (0, 0::real)] \<noteq> ([] :: (real \<times> real) list)
   \<and> [\<lparr>incident_category = Some ''Assault'', incident_description = None,
        latitude = Some 0, longitude = Some 0\<rparr>] \<noteq> []
   \<and> 22.5 \<le> calculateRouteSafetyScore
        [\<lparr>incident_category = Some ''Assault'', incident_description = None,
          latitude = Some 0, longitude = Some 0\<rparr>] [(0, 0), (1, 1), (0, 0)]
   \<and> calculateRouteSafetyScore
        [\<lparr>incident_category = Some ''Assault'', incident_description = None,
          latitude = Some 0, longitude = Some 0\<rparr>] [(0, 0), (1, 1), (0, 0)] \<le> 90"
proof -
  let ?cs = "[(0, 0), (1, 1), (0, 0)] :: (real \<times> real) list"
  let ?cd = "[\<lparr>incident_category = Some ''Assault'', incident_description = None,
               latitude = Some 0, longitude = Some 0\<rparr>]"
  have h1: "?cs \<noteq> []" and h2: "?cd \<noteq> []"
    by simp_all
  from computed_score_range [OF h1 h2]
  have "22.5 \<le> calculateRouteSafetyScore ?cd ?cs \<and> calculateRouteSafetyScore ?cd ?cs \<le> 90"
    unfolding Let_def by blast
  with h1 h2 show ?thesis
    by blast
qed

subsection \<open>The density estimator\<close>

lemma crime_weight_category: "crime_weight c = category_weight c"
  unfolding crime_weight_def category_weight_def weight_of_text_def str_includes_sublist
  by (rule refl)

lemma not_js_gt_within:
  assumes "latitude c \<noteq> None" and "longitude c \<noteq> None"
  shows "(\<not> js_gt (crime_distance c la lo) radius) = within_radius c la lo radius"
  using assms
  by (auto simp: js_gt_def crime_distance_def within_radius_def Let_def power2_eq_square)

lemma weight_of_empty_text: "weight_of_text [] = 1"
  by (simp add: weight_of_text_def toLowerCase_def)

text \<open>
  C2, as the specification states it, fails: an incident without a category whose
  description reads \<^verbatim>\<open>Assault\<close> weighs 1 in the code, and 8 when the description stands in
  for the absent category.
\<close>

theorem density_counterexample:
  "calculateCrimeDensity
     [\<lparr>incident_category = None, incident_description = Some ''Assault'',
       latitude = Some 0, longitude = Some 0\<rparr>] 0 0 default_radius
   \<noteq> spec_density
     [\<lparr>incident_category = None, incident_description = Some ''Assault'',
       latitude = Some 0, longitude = Some 0\<rparr>] 0 0 default_radius"
proof -
  have "calculateCrimeDensity
     [\<lparr>incident_category = None, incident_description = Some ''Assault'',
       latitude = Some 0, longitude = Some 0\<rparr>] 0 0 default_radius = 1"
    by (simp add: eval_density)
  moreover have "spec_density
     [\<lparr>incident_category = None, incident_description = Some ''Assault'',
       latitude = Some 0, longitude = Some 0\<rparr>] 0 0 default_radius = 8"
    by (simp add: spec_density_def within_radius_def default_radius_def spec_weight_def
        weight_of_text_def or_str_def toLowerCase_def toLowerCase_char_def
        str_includes_sublist [symmetric])
  ultimately show ?thesis by simp
qed

text \<open>
  C2, amended. For incidents whose coordinates are numbers, the density at a point is the
  sum, over the incidents whose Euclidean distance on raw latitude and longitude to the
  point is at most the radius, of the weight of the category alone: 8 for \<^verbatim>\<open>assault\<close> or
  \<^verbatim>\<open>robbery\<close>, 5 for \<^verbatim>\<open>burglary\<close>, \<^verbatim>\<open>theft\<close> or \<^verbatim>\<open>larceny\<close>, 6 for \<^verbatim>\<open>arson\<close>, 3 for
  \<^verbatim>\<open>fraud\<close>, 3 for \<^verbatim>\<open>vehicle\<close> or \<^verbatim>\<open>auto\<close>, 1 otherwise, the first match winning and
  the case ignored. The description is not consulted: an incident without a category weighs
  1. The default radius is 0.005.
\<close>

theorem density_category_weighted_sum:
  assumes "\<forall>c \<in> set cd. latitude c \<noteq> None \<and> longitude c \<noteq> None"
  shows "calculateCrimeDensity cd la lo radius
           = sum_list (map category_weight (filter (\<lambda>c. within_radius c la lo radius) cd))
         \<and> (or_str (incident_category c') [] = [] \<longrightarrow> crime_weight c' = 1)
         \<and> default_radius = 0.005"
proof -
  have "filter (\<lambda>c. \<not> js_gt (crime_distance c la lo) radius) cd
          = filter (\<lambda>c. within_radius c la lo radius) cd"
    using assms by (intro filter_cong refl) (simp add: not_js_gt_within)
  moreover have "crime_weight = category_weight"
    by (rule ext) (rule crime_weight_category)
  ultimately show ?thesis
    by (simp add: density_sum default_radius_def category_weight_def weight_of_empty_text)
qed

theorem density_category_weighted_sum_witness:
  "list_all (\<lambda>c. latitude c \<noteq> None \<and> longitude c \<noteq> None)
     [\<lparr>incident_category = Some ''Motor Vehicle Theft'', incident_description = Some ''x'',
        latitude = Some 0, longitude = Some 0\<rparr>,
      \<lparr>incident_category = None, incident_description = Some ''Assault'',
        latitude = Some 0, longitude = Some 0\<rparr>,
      \<lparr>incident_category = Some ''Arson'', incident_description = None,
        latitude = Some 1, longitude = Some 0\<rparr>]
   \<and> calculateCrimeDensity
     [\<lparr>incident_category = Some ''Motor Vehicle Theft'', incident_description = Some ''x'',
        latitude = Some 0, longitude = Some 0\<rparr>,
      \<lparr>incident_category = None, incident_description = Some ''Assault'',
        latitude = Some 0, longitude = Some 0\<rparr>,
      \<lparr>incident_category = Some ''Arson'', incident_description = None,
        latitude = Some 1, longitude = Some 0\<rparr>] 0 0 default_radius = 6"
proof -
  let ?cd = "[\<lparr>incident_category = Some ''Motor Vehicle Theft'', incident_description = Some ''x'',
        latitude = Some 0, longitude = Some 0\<rparr>,
      \<lparr>incident_category = None, incident_description = Some ''Assault'',
        latitude = Some 0, longitude = Some 0\<rparr>,
      \<lparr>incident_category = Some ''Arson'', incident_description = None,
        latitude = Some 1, longitude = Some (0::real)\<rparr>]"
  have h: "\<forall>c \<in> set ?cd. latitude c \<noteq> None \<and> longitude c \<noteq> None"
    by simp
  have "sum_list (map category_weight (filter (\<lambda>c. within_radius c 0 0 default_radius) ?cd)) = 6"
    by (simp add: within_radius_def default_radius_def category_weight_def
        weight_of_text_def or_str_def toLowerCase_def toLowerCase_char_def
        str_includes_sublist [symmetric])
  with density_category_weighted_sum [OF h, of 0 0 default_radius] h show ?thesis
    by simp
qed

text \<open>
  C4. The estimator does not skip a record whose latitude or longitude does not parse: the
  distance is \<^verbatim>\<open>NaN\<close>, the test \<^verbatim>\<open>distance > radius\<close> is false, and the weight is added
  at every query point and radius. Scoring proceeds without error, on the inflated density.
  The locator's own filter \<^verbatim>\<open>distance < 0.005\<close> does drop such records, so a point flagged
  on their weight alone gets the fallback description.
\<close>

theorem unparsable_coordinate_counted:
  "calculateCrimeDensity
     [\<lparr>incident_category = Some ''Assault'', incident_description = None,
       latitude = None, longitude = Some 0\<rparr>] 0 0 default_radius = 8
   \<and> calculateCrimeDensity
     [\<lparr>incident_category = Some ''Assault'', incident_description = None,
       latitude = None, longitude = Some 0\<rparr>] 50 50 (1 / 1000) = 8
   \<and> calculateRouteSafetyScore
     [\<lparr>incident_category = Some ''Assault'', incident_description = None,
       latitude = None, longitude = Some 0\<rparr>] [(50, 50)] = 1336 / 15
   \<and> identifyHighRiskAreas
     [\<lparr>incident_category = Some ''Assault'', incident_description = None,
       latitude = None, longitude = Some 0\<rparr>,
      \<lparr>incident_category = Some ''Assault'', incident_description = None,
       latitude = Some 0, longitude = None\<rparr>] [(50, 50)]
     = [\<lparr>lat = 50, lng = 50, risk = medium,
         description = ''High crime activity detected''\<rparr>]"
proof -
  have "calculateCrimeDensity
     [\<lparr>incident_category = Some ''Assault'', incident_description = None,
       latitude = None, longitude = Some 0\<rparr>] 0 0 default_radius = 8"
    by (simp add: eval_density)
  moreover have "calculateCrimeDensity
     [\<lparr>incident_category = Some ''Assault'', incident_description = None,
       latitude = None, longitude = Some 0\<rparr>] 50 50 (1 / 1000) = 8"
    by (simp add: eval_density)
  moreover have "calculateRouteSafetyScore
     [\<lparr>incident_category = Some ''Assault'', incident_description = None,
       latitude = None, longitude = Some 0\<rparr>] [(50, 50)] = 1336 / 15"
    by (simp add: calculateRouteSafetyScore_def samplePoints_def score_step_def eval_density)
  moreover have "identifyHighRiskAreas
     [\<lparr>incident_category = Some ''Assault'', incident_description = None,
       latitude = None, longitude = Some 0\<rparr>,
      \<lparr>incident_category = Some ''Assault'', incident_description = None,
       latitude = Some 0, longitude = None\<rparr>] [(50, 50)]
     = [\<lparr>lat = 50, lng = 50, risk = medium,
         description = ''High crime activity detected''\<rparr>]"
    by (simp add: identifyHighRiskAreas_def risk_step_def eval_density eval_description)
  ultimately show ?thesis
    by blast
qed

subsection \<open>The risk segment locator\<close>

lemma risk_fold:
  "foldl (risk_step cd) acc zs =
     acc @ map (\<lambda>z. risk_area_of cd (fst z))
               (filter (\<lambda>z. snd z mod 10 = 0 \<and> 15 < point_density cd (fst z)) zs)"
  by (induction zs arbitrary: acc)
     (simp_all add: risk_step_def risk_area_of_def point_density_def Let_def)

lemma zip_upt_nth: "zip cs [0..<length cs] = map (\<lambda>i. (cs ! i, i)) [0..<length cs]"
  by (rule nth_equalityI) simp_all

lemma identifyHighRiskAreas_filter:
  "identifyHighRiskAreas cd cs =
     map (\<lambda>i. risk_area_of cd (cs ! i))
         (filter (\<lambda>i. 10 dvd i \<and> 15 < point_density cd (cs ! i)) [0..<length cs])"
  by (simp add: identifyHighRiskAreas_def risk_fold zip_upt_nth filter_map comp_def
      dvd_eq_mod_eq_0)

text \<open>
  C6. The locator scans exactly the positions divisible by 10 and emits, in the order of the
  polyline, a segment for each scanned point whose density exceeds 15, with level
  \<open>high\<close> when the density exceeds 50 and \<open>medium\<close> otherwise. A polyline of 101 points is
  scanned at the 11 positions \<open>0, 10, \<dots>, 100\<close>, and scored at the 21 positions
  \<open>0, 5, \<dots>, 100\<close>. A scanned point of density 60 is flagged \<open>high\<close>, one of density 20
  \<open>medium\<close>, one of density 10 not at all.
\<close>

theorem risk_locator_stride_and_threshold:
  "identifyHighRiskAreas cd cs =
     map (\<lambda>i. \<lparr>lat = fst (cs ! i), lng = snd (cs ! i),
                risk = (if 50 < point_density cd (cs ! i) then high else medium),
                description = risk_description cd (cs ! i)\<rparr>)
         (filter (\<lambda>i. 10 dvd i \<and> 15 < point_density cd (cs ! i)) [0..<length cs])
   \<and> (length cs = 101 \<longrightarrow>
        filter (\<lambda>i. 10 dvd i) [0..<length cs] = [0, 10, 20, 30, 40, 50, 60, 70, 80, 90, 100]
        \<and> samplePoints cs =
            map (\<lambda>i. cs ! i)
              [0, 5, 10, 15, 20, 25, 30, 35, 40, 45, 50, 55, 60, 65, 70, 75, 80, 85, 90, 95, 100])
   \<and> (\<forall>i < length cs. 10 dvd i \<longrightarrow>
        (point_density cd (cs ! i) = 60 \<longrightarrow>
           (\<exists>a \<in> set (identifyHighRiskAreas cd cs).
              lat a = fst (cs ! i) \<and> lng a = snd (cs ! i) \<and> risk a = high))
        \<and> (point_density cd (cs ! i) = 20 \<longrightarrow>
           (\<exists>a \<in> set (identifyHighRiskAreas cd cs).
              lat a = fst (cs ! i) \<and> lng a = snd (cs ! i) \<and> risk a = medium))
        \<and> (point_density cd (cs ! i) = 10 \<longrightarrow>
           \<not> (\<exists>a \<in> set (identifyHighRiskAreas cd cs).
              lat a = fst (cs ! i) \<and> lng a = snd (cs ! i))))"
proof (intro conjI allI impI)
  show "identifyHighRiskAreas cd cs =
     map (\<lambda>i. \<lparr>lat = fst (cs ! i), lng = snd (cs ! i),
                risk = (if 50 < point_density cd (cs ! i) then high else medium),
                description = risk_description cd (cs ! i)\<rparr>)
         (filter (\<lambda>i. 10 dvd i \<and> 15 < point_density cd (cs ! i)) [0..<length cs])"
    by (simp add: identifyHighRiskAreas_filter risk_area_of_def)
next
  assume "length cs = 101"
  moreover have "filter (\<lambda>i. 10 dvd i) [0..<101] = [0, 10, 20, 30, 40, 50, 60, 70, 80, 90, 100]"
    by code_simp
  ultimately show "filter (\<lambda>i. 10 dvd i) [0..<length cs]
      = [0, 10, 20, 30, 40, 50, 60, 70, 80, 90, 100]"
    by simp
next
  assume "length cs = 101"
  moreover have "sample_indices 5 101 =
      [0, 5, 10, 15, 20, 25, 30, 35, 40, 45, 50, 55, 60, 65, 70, 75, 80, 85, 90, 95, 100]"
    by code_simp
  ultimately show "samplePoints cs =
            map (\<lambda>i. cs ! i)
              [0, 5, 10, 15, 20, 25, 30, 35, 40, 45, 50, 55, 60, 65, 70, 75, 80, 85, 90, 95, 100]"
    by (simp only: samplePoints_nth)
next
  fix i assume i: "i < length cs" "10 dvd i" and d: "point_density cd (cs ! i) = 60"
  then have "i \<in> set (filter (\<lambda>i. 10 dvd i \<and> 15 < point_density cd (cs ! i)) [0..<length cs])"
    by simp
  then have "risk_area_of cd (cs ! i) \<in> set (identifyHighRiskAreas cd cs)"
    unfolding identifyHighRiskAreas_filter by (simp add: image_iff) blast
  moreover have "risk (risk_area_of cd (cs ! i)) = high"
    using d by (simp add: risk_area_of_def)
  ultimately show "\<exists>a \<in> set (identifyHighRiskAreas cd cs).
              lat a = fst (cs ! i) \<and> lng a = snd (cs ! i) \<and> risk a = high"
    by (intro bexI [of _ "risk_area_of cd (cs ! i)"]) (simp_all add: risk_area_of_def)
next
  fix i assume i: "i < length cs" "10 dvd i" and d: "point_density cd (cs ! i) = 20"
  then have "i \<in> set (filter (\<lambda>i. 10 dvd i \<and> 15 < point_density cd (cs ! i)) [0..<length cs])"
    by simp
  then have "risk_area_of cd (cs ! i) \<in> set (identifyHighRiskAreas cd cs)"
    unfolding identifyHighRiskAreas_filter by (simp add: image_iff) blast
  moreover have "risk (risk_area_of cd (cs ! i)) = medium"
    using d by (simp add: risk_area_of_def)
  ultimately show "\<exists>a \<in> set (identifyHighRiskAreas cd cs).
              lat a = fst (cs ! i) \<and> lng a = snd (cs ! i) \<and> risk a = medium"
    by (intro bexI [of _ "risk_area_of cd (cs ! i)"]) (simp_all add: risk_area_of_def)
next
  fix i assume i: "i < length cs" "10 dvd i" and d: "point_density cd (cs ! i) = 10"
  show "\<not> (\<exists>a \<in> set (identifyHighRiskAreas cd cs).
              lat a = fst (cs ! i) \<and> lng a = snd (cs ! i))"
  proof
    assume "\<exists>a \<in> set (identifyHighRiskAreas cd cs). lat a = fst (cs ! i) \<and> lng a = snd (cs ! i)"
    then obtain j where j: "15 < point_density cd (cs ! j)"
        and eq: "lat (risk_area_of cd (cs ! j)) = fst (cs ! i)
                 \<and> lng (risk_area_of cd (cs ! j)) = snd (cs ! i)"
      unfolding identifyHighRiskAreas_filter by auto
    from eq have "cs ! j = cs ! i"
      by (simp add: risk_area_of_def prod_eq_iff)
    with j d show False by simp
  qed
qed

theorem risk_locator_stride_and_threshold_witness:
  "length (map (\<lambda>i. (real i, 0::real)) [0..<101]) = 101
   \<and> point_density
        [incident_at ''Assault'' 0 0, incident_at ''Assault'' 0 0, incident_at ''Assault'' 0 0,
         incident_at ''Assault'' 0 0, incident_at ''Assault'' 0 0, incident_at ''Assault'' 0 0,
         incident_at ''Assault'' 0 0, incident_at ''Fraud'' 0 0, incident_at ''Noise'' 0 0,
         incident_at ''Robbery'' 10 0, incident_at ''Robbery'' 10 0, incident_at ''Fraud'' 10 0,
         incident_at ''Noise'' 10 0, incident_at ''Theft'' 20 0, incident_at ''Theft'' 20 0]
        (map (\<lambda>i. (real i, 0)) [0..<101] ! 0) = 60
   \<and> (\<exists>a \<in> set (identifyHighRiskAreas
        [incident_at ''Assault'' 0 0, incident_at ''Assault'' 0 0, incident_at ''Assault'' 0 0,
         incident_at ''Assault'' 0 0, incident_at ''Assault'' 0 0, incident_at ''Assault'' 0 0,
         incident_at ''Assault'' 0 0, incident_at ''Fraud'' 0 0, incident_at ''Noise'' 0 0,
         incident_at ''Robbery'' 10 0, incident_at ''Robbery'' 10 0, incident_at ''Fraud'' 10 0,
         incident_at ''Noise'' 10 0, incident_at ''Theft'' 20 0, incident_at ''Theft'' 20 0]
        (map (\<lambda>i. (real i, 0)) [0..<101])). lat a = 0 \<and> lng a = 0 \<and> risk a = high)
   \<and> (\<exists>a \<in> set (identifyHighRiskAreas
        [incident_at ''Assault'' 0 0, incident_at ''Assault'' 0 0, incident_at ''Assault'' 0 0,
         incident_at ''Assault'' 0 0, incident_at ''Assault'' 0 0, incident_at ''Assault'' 0 0,
         incident_at ''Assault'' 0 0, incident_at ''Fraud'' 0 0, incident_at ''Noise'' 0 0,
         incident_at ''Robbery'' 10 0, incident_at ''Robbery'' 10 0, incident_at ''Fraud'' 10 0,
         incident_at ''Noise'' 10 0, incident_at ''Theft'' 20 0, incident_at ''Theft'' 20 0]
        (map (\<lambda>i. (real i, 0)) [0..<101])). lat a = 10 \<and> lng a = 0 \<and> risk a = medium)
   \<and> \<not> (\<exists>a \<in> set (identifyHighRiskAreas
        [incident_at ''Assault'' 0 0, incident_at ''Assault'' 0 0, incident_at ''Assault'' 0 0,
         incident_at ''Assault'' 0 0, incident_at ''Assault'' 0 0, incident_at ''Assault'' 0 0,
         incident_at ''Assault'' 0 0, incident_at ''Fraud'' 0 0, incident_at ''Noise'' 0 0,
         incident_at ''Robbery'' 10 0, incident_at ''Robbery'' 10 0, incident_at ''Fraud'' 10 0,
         incident_at ''Noise'' 10 0, incident_at ''Theft'' 20 0, incident_at ''Theft'' 20 0]
        (map (\<lambda>i. (real i, 0)) [0..<101])). lat a = 20 \<and> lng a = 0)"
proof -
  let ?cs = "map (\<lambda>i. (real i, 0::real)) [0..<101]"
  let ?cd = "[incident_at ''Assault'' 0 0, incident_at ''Assault'' 0 0, incident_at ''Assault'' 0 0,
         incident_at ''Assault'' 0 0, incident_at ''Assault'' 0 0, incident_at ''Assault'' 0 0,
         incident_at ''Assault'' 0 0, incident_at ''Fraud'' 0 0, incident_at ''Noise'' 0 0,
         incident_at ''Robbery'' 10 0, incident_at ''Robbery'' 10 0, incident_at ''Fraud'' 10 0,
         incident_at ''Noise'' 10 0, incident_at ''Theft'' 20 0, incident_at ''Theft'' 20 0]"
  have len: "length ?cs = 101"
    by simp
  have p0: "?cs ! 0 = (0, 0)" and p10: "?cs ! 10 = (10, 0)" and p20: "?cs ! 20 = (20, 0)"
    by simp_all
  have d0: "point_density ?cd (0, 0) = 60"
    by (simp add: point_density_def eval_density incident_at_def)
  have d10: "point_density ?cd (10, 0) = 20"
    by (simp add: point_density_def eval_density incident_at_def)
  have d20: "point_density ?cd (20, 0) = 10"
    by (simp add: point_density_def eval_density incident_at_def)
  have all: "\<forall>i < length ?cs. 10 dvd i \<longrightarrow>
        (point_density ?cd (?cs ! i) = 60 \<longrightarrow>
           (\<exists>a \<in> set (identifyHighRiskAreas ?cd ?cs).
              lat a = fst (?cs ! i) \<and> lng a = snd (?cs ! i) \<and> risk a = high))
        \<and> (point_density ?cd (?cs ! i) = 20 \<longrightarrow>
           (\<exists>a \<in> set (identifyHighRiskAreas ?cd ?cs).
              lat a = fst (?cs ! i) \<and> lng a = snd (?cs ! i) \<and> risk a = medium))
        \<and> (point_density ?cd (?cs ! i) = 10 \<longrightarrow>
           \<not> (\<exists>a \<in> set (identifyHighRiskAreas ?cd ?cs).
              lat a = fst (?cs ! i) \<and> lng a = snd (?cs ! i)))"
    using risk_locator_stride_and_threshold [of ?cd ?cs] by blast
  have i0: "(0::nat) < length ?cs \<and> (10::nat) dvd 0"
    and i10: "(10::nat) < length ?cs \<and> (10::nat) dvd 10"
    and i20: "(20::nat) < length ?cs \<and> (10::nat) dvd 20"
    by simp_all
  have a: "\<exists>a \<in> set (identifyHighRiskAreas ?cd ?cs). lat a = 0 \<and> lng a = 0 \<and> risk a = high"
    using all [rule_format, of 0] i0 d0 unfolding p0 by simp
  have b: "\<exists>a \<in> set (identifyHighRiskAreas ?cd ?cs). lat a = 10 \<and> lng a = 0 \<and> risk a = medium"
    using all [rule_format, of 10] i10 d10 unfolding p10 by simp
  have c: "\<not> (\<exists>a \<in> set (identifyHighRiskAreas ?cd ?cs). lat a = 20 \<and> lng a = 0)"
    using all [rule_format, of 20] i20 d20 unfolding p20 by simp
  show ?thesis
    unfolding p0 using len d0 a b c by blast
qed

text \<open>
  C5, as the specification states it, fails for a polyline of one point: with two assaults
  at the point the score is \<open>1322 / 15\<close>, not 85, and the locator flags the point.
\<close>

theorem single_point_counterexample:
  "calculateRouteSafetyScore
     [\<lparr>incident_category = Some ''Assault'', incident_description = None,
       latitude = Some 0, longitude = Some 0\<rparr>,
      \<lparr>incident_category = Some ''Assault'', incident_description = None,
       latitude = Some 0, longitude = Some 0\<rparr>] [(0, 0)] \<noteq> 85
   \<and> identifyHighRiskAreas
     [\<lparr>incident_category = Some ''Assault'', incident_description = None,
       latitude = Some 0, longitude = Some 0\<rparr>,
      \<lparr>incident_category = Some ''Assault'', incident_description = None,
       latitude = Some 0, longitude = Some 0\<rparr>] [(0, 0)] \<noteq> []"
proof -
  have "calculateRouteSafetyScore
     [\<lparr>incident_category = Some ''Assault'', incident_description = None,
       latitude = Some 0, longitude = Some 0\<rparr>,
      \<lparr>incident_category = Some ''Assault'', incident_description = None,
       latitude = Some 0, longitude = Some 0\<rparr>] [(0, 0)] = 1322 / 15"
    by (simp add: calculateRouteSafetyScore_def samplePoints_def score_step_def eval_density)
  moreover have "identifyHighRiskAreas
     [\<lparr>incident_category = Some ''Assault'', incident_description = None,
       latitude = Some 0, longitude = Some 0\<rparr>,
      \<lparr>incident_category = Some ''Assault'', incident_description = None,
       latitude = Some 0, longitude = Some 0\<rparr>] [(0, 0)]
     = [\<lparr>lat = 0, lng = 0, risk = medium,
         description = ''High assault activity (2 incidents)''\<rparr>]"
    by (simp add: identifyHighRiskAreas_def risk_step_def eval_density eval_description)
  ultimately show ?thesis
    by simp
qed

text \<open>
  C5, amended. For the empty polyline the scorer returns 85 and the locator returns no
  segment, whatever the incidents. For a polyline of one point the scorer divides by the
  sample count 1, never by zero: it returns 85 when there is no incident and otherwise the
  score computed from the density \<open>d\<close> of the point,
  \<open>90 - (min (d / 300) 1.5 * 20 + min (d / 500) 1.5 * 25)\<close> clamped to \<open>[0, 100]\<close>; the
  locator returns no segment exactly when \<open>d \<le> 15\<close>.
\<close>

theorem degenerate_polyline:
  "calculateRouteSafetyScore cd [] = 85
   \<and> identifyHighRiskAreas cd [] = []
   \<and> calculateRouteSafetyScore [] [p] = 85
   \<and> identifyHighRiskAreas [] [p] = []
   \<and> (cd \<noteq> [] \<longrightarrow>
        calculateRouteSafetyScore cd [p] =
          max 0 (min 100 (90 - (min (point_density cd p / 300) 1.5 * 20
                                + min (point_density cd p / 500) 1.5 * 25))))
   \<and> (identifyHighRiskAreas cd [p] = []) = (point_density cd p \<le> 15)"
proof -
  have sp: "samplePoints [p] = [p]"
    by (simp add: samplePoints_def)
  have "calculateRouteSafetyScore cd [p] =
          max 0 (min 100 (90 - (min (point_density cd p / 300) 1.5 * 20
                                + min (point_density cd p / 500) 1.5 * 25)))"
    if "cd \<noteq> []"
    using that density_nonneg [of cd "fst p" "snd p" default_radius]
    by (simp add: calculateRouteSafetyScore_def sp score_step_def point_density_def Let_def)
  moreover have "(identifyHighRiskAreas cd [p] = []) = (point_density cd p \<le> 15)"
    by (simp add: identifyHighRiskAreas_def risk_step_def point_density_def Let_def)
  moreover have "identifyHighRiskAreas [] [p] = []"
    by (simp add: identifyHighRiskAreas_def risk_step_def calculateCrimeDensity_def Let_def)
  ultimately show ?thesis
    by (simp add: calculateRouteSafetyScore_def identifyHighRiskAreas_def)
qed

theorem degenerate_polyline_witness:
  "[\<lparr>incident_category = Some ''Assault'', incident_description = None,
      latitude = Some 0, longitude = Some 0\<rparr>] \<noteq> []
   \<and> calculateRouteSafetyScore
        [\<lparr>incident_category = Some ''Assault'', incident_description = None,
          latitude = Some 0, longitude = Some 0\<rparr>] [(0, 0)] = 1336 / 15"
proof -
  let ?cd = "[\<lparr>incident_category = Some ''Assault'', incident_description = None,
      latitude = Some 0, longitude = Some (0::real)\<rparr>]"
  have h: "?cd \<noteq> []" by simp
  have d: "point_density ?cd (0, 0) = 8"
    by (simp add: point_density_def eval_density)
  from degenerate_polyline [of ?cd "(0, 0)"] h
  have "calculateRouteSafetyScore ?cd [(0, 0)] =
          max 0 (min 100 (90 - (min (point_density ?cd (0, 0) / 300) 1.5 * 20
                                + min (point_density ?cd (0, 0) / 500) 1.5 * 25)))"
    by blast
  then show ?thesis
    unfolding d by simp
qed

subsection \<open>The route selector\<close>

lemma hd_insort_key:
  "hd (insort_key f x ys) = (if ys = [] \<or> f x \<le> f (hd ys) then x else hd ys)"
  by (cases ys) simp_all

lemma sort_key_Nil_iff: "(sort_key f xs = []) = (xs = [])"
  by (metis length_sort list.size(3) length_0_conv)

lemma find_first_min:
  fixes f :: "'a \<Rightarrow> real"
  assumes "xs \<noteq> []"
  shows "find (\<lambda>x. \<forall>y \<in> set xs. f x \<le> f y) xs = Some (hd (sort_key f xs))"
  using assms
proof (induction xs)
  case Nil
  then show ?case by simp
next
  case (Cons x xs)
  show ?case
  proof (cases "xs = []")
    case True
    then show ?thesis by simp
  next
    case False
    let ?h = "hd (sort_key f xs)"
    have IH: "find (\<lambda>z. \<forall>y \<in> set xs. f z \<le> f y) xs = Some ?h"
      using Cons.IH False by simp
    then have h_in: "?h \<in> set xs" and h_min: "\<forall>y \<in> set xs. f ?h \<le> f y"
      by (auto simp: find_Some_iff)
    have hd_eq: "hd (sort_key f (x # xs)) = (if f x \<le> f ?h then x else ?h)"
      using False by (simp add: hd_insort_key sort_key_Nil_iff)
    show ?thesis
    proof (cases "f x \<le> f ?h")
      case True
      then have "\<forall>y \<in> set (x # xs). f x \<le> f y"
        using h_min by fastforce
      then show ?thesis
        using True hd_eq by simp
    next
      case lt: False
      let ?P = "\<lambda>z. \<forall>y \<in> set (x # xs). f z \<le> f y"
      have "find ?P xs = find (\<lambda>z. \<forall>y \<in> set xs. f z \<le> f y) xs"
      proof (rule find_cong [OF refl])
        fix z assume "z \<in> set xs"
        show "?P z = (\<forall>y \<in> set xs. f z \<le> f y)"
        proof
          assume a: "\<forall>y \<in> set xs. f z \<le> f y"
          then have "f z \<le> f ?h" using h_in by blast
          with lt have "f z \<le> f x" by linarith
          with a show "?P z"
            by simp
        qed simp
      qed
      moreover have np: "\<not> ?P x"
        using lt h_in by auto
      moreover have "find ?P (x # xs) = find ?P xs"
        by (simp only: find.simps np if_False)
      moreover have "hd (sort_key f (x # xs)) = ?h"
        using hd_eq lt by simp
      ultimately show ?thesis
        using IH by (simp only:)
    qed
  qed
qed

lemma find_map_nth:
  "find P xs = map_option (\<lambda>i. xs ! i) (find (\<lambda>i. P (xs ! i)) [0..<length xs])"
proof -
  have "find P (map g is) = map_option g (find (\<lambda>i. P (g i)) is)" for g :: "nat \<Rightarrow> 'a" and "is"
    by (induction "is") simp_all
  from this [of "\<lambda>i. xs ! i" "[0..<length xs]"] show ?thesis
    by (simp add: map_nth)
qed

lemma select_first_min:
  fixes key :: "'a \<Rightarrow> real"
  assumes "ps \<noteq> []"
  defines "r \<equiv> hd (sort_key (\<lambda>i. key (ps ! i)) [0..<length ps])"
  shows "r < length ps"
    and "find (\<lambda>p. \<forall>q \<in> set ps. key p \<le> key q) ps = Some (ps ! r)"
proof -
  have ne: "[0..<length ps] \<noteq> []"
    using assms(1) by simp
  have f: "find (\<lambda>i. \<forall>j \<in> set [0..<length ps]. key (ps ! i) \<le> key (ps ! j)) [0..<length ps] = Some r"
    unfolding r_def by (rule find_first_min [OF ne])
  then show "r < length ps"
    by (auto simp: find_Some_iff)
  have "(\<forall>q \<in> set ps. key (ps ! i) \<le> key q) = (\<forall>j \<in> set [0..<length ps]. key (ps ! i) \<le> key (ps ! j))" for i
    by (auto simp: all_set_conv_all_nth)
  then show "find (\<lambda>p. \<forall>q \<in> set ps. key p \<le> key q) ps = Some (ps ! r)"
    using f by (simp add: find_map_nth [of _ ps])
qed


lemma selected_routes_cases:
  assumes "ps \<noteq> []"
  shows "\<exists>fa sa.
      find (\<lambda>r. \<forall>q \<in> set ps.
              duration_seconds (details r) \<le> duration_seconds (details q)) ps = Some fa
    \<and> find (\<lambda>r. \<forall>q \<in> set ps. safetyScore q \<le> safetyScore r) ps = Some sa
    \<and> selected_routes ps =
        (if distance_meters (details fa) = distance_meters (details sa)
            \<and> duration_seconds (details fa) = duration_seconds (details sa)
         then [fa\<lparr>index := 0, type := fastest_safest\<rparr>]
         else [fa\<lparr>index := 0, type := fastest\<rparr>, sa\<lparr>index := 1, type := safest\<rparr>])"
proof -
  define n where "n = length ps"
  define f where "f = hd (sort_key (\<lambda>r. duration_seconds (details (ps ! r))) [0..<n])"
  define store1 where "store1 = ps[f := (ps ! f)\<lparr>type := fastest\<rparr>]"
  define s where "s = hd (sort_key (\<lambda>r. - safetyScore (store1 ! r)) [0..<n])"
  define store2 where "store2 = store1[s := (store1 ! s)\<lparr>type := safest\<rparr>]"
  have f_lt: "f < n"
    and f_find: "find (\<lambda>r. \<forall>q \<in> set ps.
              duration_seconds (details r) \<le> duration_seconds (details q)) ps = Some (ps ! f)"
    using select_first_min [OF assms, of "\<lambda>r. duration_seconds (details r)"]
    by (simp_all add: f_def n_def)
  have len1: "length store1 = n"
    by (simp add: store1_def n_def)
  have ne1: "store1 \<noteq> []"
    using assms by (simp add: store1_def)
  have upd1: "store1 ! r = (if r = f then (ps ! f)\<lparr>type := fastest\<rparr> else ps ! r)" for r
    using f_lt by (simp add: store1_def n_def nth_list_update)
  have "(\<lambda>r. - safetyScore (store1 ! r)) = (\<lambda>r. - safetyScore (ps ! r))"
    by (rule ext) (simp add: upd1)
  then have s_eq: "s = hd (sort_key (\<lambda>r. - safetyScore (ps ! r)) [0..<n])"
    by (simp add: s_def)
  have s_lt: "s < n"
    and s_find: "find (\<lambda>r. \<forall>q \<in> set ps. safetyScore q \<le> safetyScore r) ps = Some (ps ! s)"
    using select_first_min [OF assms, of "\<lambda>r. - safetyScore r"]
    by (simp_all add: s_eq n_def)
  have upd2: "store2 ! r = (if r = s then (store1 ! s)\<lparr>type := safest\<rparr> else store1 ! r)" for r
    using s_lt by (simp add: store2_def store1_def n_def nth_list_update)
  have det: "details (store2 ! r) = details (ps ! r)" for r
    by (simp add: upd2 upd1)
  define differ where "differ =
     (distance_meters (details (store2 ! f)) \<noteq> distance_meters (details (store2 ! s))
      \<or> duration_seconds (details (store2 ! f)) \<noteq> duration_seconds (details (store2 ! s)))"
  define finalRoutes where "finalRoutes = (if differ then [f, s] else [f])"
  define store3 where "store3 =
     (if differ then store2 else store2[f := (store2 ! f)\<lparr>type := fastest_safest\<rparr>])"
  define store4 where "store4 =
     foldl (\<lambda>st ri. st[fst ri := (st ! fst ri)\<lparr>index := snd ri\<rparr>]) store3
           (zip finalRoutes [0..<length finalRoutes])"
  have sel: "selectRoutes ps = (finalRoutes, store4)"
    by (simp add: selectRoutes_def Let_def store4_def store3_def finalRoutes_def differ_def
        store2_def s_def store1_def f_def n_def)
  have len2: "length store2 = n"
    by (simp add: store2_def store1_def n_def)
  have differ_iff: "differ =
     (\<not> (distance_meters (details (ps ! f)) = distance_meters (details (ps ! s))
         \<and> duration_seconds (details (ps ! f)) = duration_seconds (details (ps ! s))))"
    by (auto simp: differ_def det)
  have out: "selected_routes ps =
        (if \<not> differ then [(ps ! f)\<lparr>index := 0, type := fastest_safest\<rparr>]
         else [(ps ! f)\<lparr>index := 0, type := fastest\<rparr>, (ps ! s)\<lparr>index := 1, type := safest\<rparr>])"
  proof (cases differ)
    case True
    then have ne: "f \<noteq> s"
      by (auto simp: differ_def)
    have "store4 = (store2[f := (store2 ! f)\<lparr>index := 0\<rparr>])
                     [s := ((store2[f := (store2 ! f)\<lparr>index := 0\<rparr>]) ! s)\<lparr>index := 1\<rparr>]"
      using True by (simp add: store4_def store3_def finalRoutes_def upt_rec)
    then have "store4 ! f = (ps ! f)\<lparr>index := 0, type := fastest\<rparr>"
      and "store4 ! s = (ps ! s)\<lparr>index := 1, type := safest\<rparr>"
      using ne f_lt s_lt len2 by (simp_all add: nth_list_update upd2 upd1)
    then show ?thesis
      using True by (simp add: selected_routes_def sel finalRoutes_def)
  next
    case False
    have "store4 = store3[f := (store3 ! f)\<lparr>index := 0\<rparr>]"
      using False by (simp add: store4_def finalRoutes_def upt_rec)
    moreover have "store3 ! f = (ps ! f)\<lparr>type := fastest_safest\<rparr>"
      using False f_lt len2 by (simp add: store3_def nth_list_update upd2 upd1)
    moreover have "length store3 = n"
      using False len2 by (simp add: store3_def)
    ultimately have "store4 ! f = (ps ! f)\<lparr>index := 0, type := fastest_safest\<rparr>"
      using f_lt by (simp add: nth_list_update)
    then show ?thesis
      using False by (simp add: selected_routes_def sel finalRoutes_def)
  qed
  show ?thesis
    using f_find s_find out differ_iff by auto
qed


lemma defaultRoute_in_set: "defaultRoute rs = Some d \<Longrightarrow> d \<in> set rs"
  by (auto simp: defaultRoute_def find_Some_iff split: option.splits list.splits)

lemma defaultRoute_priority:
  "(find (\<lambda>r. type r = safest) rs = Some x \<longrightarrow> defaultRoute rs = Some x)
   \<and> (find (\<lambda>r. type r = safest) rs = None
        \<and> find (\<lambda>r. type r = fastest_safest) rs = Some x \<longrightarrow> defaultRoute rs = Some x)
   \<and> (find (\<lambda>r. type r = safest) rs = None
        \<and> find (\<lambda>r. type r = fastest_safest) rs = None
        \<and> find (\<lambda>r. type r = fastest) rs = Some x \<longrightarrow> defaultRoute rs = Some x)
   \<and> (find (\<lambda>r. type r = safest) rs = None
        \<and> find (\<lambda>r. type r = fastest_safest) rs = None
        \<and> find (\<lambda>r. type r = fastest) rs = None \<and> rs \<noteq> [] \<longrightarrow> defaultRoute rs = Some (hd rs))"
  by (cases rs) (simp_all add: defaultRoute_def)

text \<open>
  C3. For a non-empty pool of scored candidates the selector takes as fastest the first
  candidate of minimum \<open>duration_seconds\<close> and as safest the first candidate of maximum
  \<open>safetyScore\<close>. When the two have the same distance and the same duration it emits the
  fastest alone, with role \<open>fastest_safest\<close> and index 0; otherwise it emits the fastest
  with role \<open>fastest\<close> and index 0, then the safest with role \<open>safest\<close> and index 1.
  The default route is the first entry of role \<open>safest\<close>, else the first of role
  \<open>fastest_safest\<close>, else the first of role \<open>fastest\<close>, else the first entry; on the
  selector's output that is the safest entry, or the merged one.
\<close>

theorem selector_fastest_safest:
  assumes "ps \<noteq> []"
  shows "(\<exists>fa sa.
      find (\<lambda>r. \<forall>q \<in> set ps.
              duration_seconds (details r) \<le> duration_seconds (details q)) ps = Some fa
    \<and> find (\<lambda>r. \<forall>q \<in> set ps. safetyScore q \<le> safetyScore r) ps = Some sa
    \<and> selected_routes ps =
        (if distance_meters (details fa) = distance_meters (details sa)
            \<and> duration_seconds (details fa) = duration_seconds (details sa)
         then [fa\<lparr>index := 0, type := fastest_safest\<rparr>]
         else [fa\<lparr>index := 0, type := fastest\<rparr>, sa\<lparr>index := 1, type := safest\<rparr>])
    \<and> defaultRoute (selected_routes ps) =
        Some (if distance_meters (details fa) = distance_meters (details sa)
                 \<and> duration_seconds (details fa) = duration_seconds (details sa)
              then fa\<lparr>index := 0, type := fastest_safest\<rparr>
              else sa\<lparr>index := 1, type := safest\<rparr>))
   \<and> (find (\<lambda>r. type r = safest) rs = Some x \<longrightarrow> defaultRoute rs = Some x)
   \<and> (find (\<lambda>r. type r = safest) rs = None
        \<and> find (\<lambda>r. type r = fastest_safest) rs = Some x \<longrightarrow> defaultRoute rs = Some x)
   \<and> (find (\<lambda>r. type r = safest) rs = None
        \<and> find (\<lambda>r. type r = fastest_safest) rs = None
        \<and> find (\<lambda>r. type r = fastest) rs = Some x \<longrightarrow> defaultRoute rs = Some x)
   \<and> (find (\<lambda>r. type r = safest) rs = None
        \<and> find (\<lambda>r. type r = fastest_safest) rs = None
        \<and> find (\<lambda>r. type r = fastest) rs = None \<and> rs \<noteq> [] \<longrightarrow> defaultRoute rs = Some (hd rs))"
proof -
  obtain fa sa where
    fa: "find (\<lambda>r. \<forall>q \<in> set ps.
              duration_seconds (details r) \<le> duration_seconds (details q)) ps = Some fa"
    and sa: "find (\<lambda>r. \<forall>q \<in> set ps. safetyScore q \<le> safetyScore r) ps = Some sa"
    and out: "selected_routes ps =
        (if distance_meters (details fa) = distance_meters (details sa)
            \<and> duration_seconds (details fa) = duration_seconds (details sa)
         then [fa\<lparr>index := 0, type := fastest_safest\<rparr>]
         else [fa\<lparr>index := 0, type := fastest\<rparr>, sa\<lparr>index := 1, type := safest\<rparr>])"
    using selected_routes_cases [OF assms] by blast
  have "defaultRoute (selected_routes ps) =
        Some (if distance_meters (details fa) = distance_meters (details sa)
                 \<and> duration_seconds (details fa) = duration_seconds (details sa)
              then fa\<lparr>index := 0, type := fastest_safest\<rparr>
              else sa\<lparr>index := 1, type := safest\<rparr>)"
    unfolding out by (simp add: defaultRoute_def)
  with fa sa out have "\<exists>fa sa.
      find (\<lambda>r. \<forall>q \<in> set ps.
              duration_seconds (details r) \<le> duration_seconds (details q)) ps = Some fa
    \<and> find (\<lambda>r. \<forall>q \<in> set ps. safetyScore q \<le> safetyScore r) ps = Some sa
    \<and> selected_routes ps =
        (if distance_meters (details fa) = distance_meters (details sa)
            \<and> duration_seconds (details fa) = duration_seconds (details sa)
         then [fa\<lparr>index := 0, type := fastest_safest\<rparr>]
         else [fa\<lparr>index := 0, type := fastest\<rparr>, sa\<lparr>index := 1, type := safest\<rparr>])
    \<and> defaultRoute (selected_routes ps) =
        Some (if distance_meters (details fa) = distance_meters (details sa)
                 \<and> duration_seconds (details fa) = duration_seconds (details sa)
              then fa\<lparr>index := 0, type := fastest_safest\<rparr>
              else sa\<lparr>index := 1, type := safest\<rparr>)"
    by blast
  with defaultRoute_priority [of rs x] show ?thesis
    by blast
qed

theorem selector_fastest_safest_witness:
  "[\<lparr>index = 0, type = alternative, safetyScore = 70, safetyGrade = C, coordinates = [],
      highRiskAreas = [], details = \<lparr>distance_meters = 1000, duration_seconds = 500\<rparr>\<rparr>,
    \<lparr>index = 1, type = alternative, safetyScore = 90, safetyGrade = A, coordinates = [],
      highRiskAreas = [], details = \<lparr>distance_meters = 1500, duration_seconds = 800\<rparr>\<rparr>] \<noteq> []
   \<and> selected_routes
     [\<lparr>index = 0, type = alternative, safetyScore = 70, safetyGrade = C, coordinates = [],
        highRiskAreas = [], details = \<lparr>distance_meters = 1000, duration_seconds = 500\<rparr>\<rparr>,
      \<lparr>index = 1, type = alternative, safetyScore = 90, safetyGrade = A, coordinates = [],
        highRiskAreas = [], details = \<lparr>distance_meters = 1500, duration_seconds = 800\<rparr>\<rparr>]
     = [\<lparr>index = 0, type = fastest, safetyScore = 70, safetyGrade = C, coordinates = [],
          highRiskAreas = [], details = \<lparr>distance_meters = 1000, duration_seconds = 500\<rparr>\<rparr>,
        \<lparr>index = 1, type = safest, safetyScore = 90, safetyGrade = A, coordinates = [],
          highRiskAreas = [], details = \<lparr>distance_meters = 1500, duration_seconds = 800\<rparr>\<rparr>]
   \<and> defaultRoute (selected_routes
     [\<lparr>index = 0, type = alternative, safetyScore = 70, safetyGrade = C, coordinates = [],
        highRiskAreas = [], details = \<lparr>distance_meters = 1000, duration_seconds = 500\<rparr>\<rparr>,
      \<lparr>index = 1, type = alternative, safetyScore = 90, safetyGrade = A, coordinates = [],
        highRiskAreas = [], details = \<lparr>distance_meters = 1500, duration_seconds = 800\<rparr>\<rparr>])
     = Some \<lparr>index = 1, type = safest, safetyScore = 90, safetyGrade = A, coordinates = [],
          highRiskAreas = [], details = \<lparr>distance_meters = 1500, duration_seconds = 800\<rparr>\<rparr>"
proof -
  let ?a = "\<lparr>index = 0, type = alternative, safetyScore = 70, safetyGrade = C, coordinates = [],
      highRiskAreas = [], details = \<lparr>distance_meters = 1000, duration_seconds = 500\<rparr>\<rparr>"
  let ?b = "\<lparr>index = 1, type = alternative, safetyScore = 90, safetyGrade = A, coordinates = [],
      highRiskAreas = [], details = \<lparr>distance_meters = 1500, duration_seconds = 800\<rparr>\<rparr>"
  have h: "[?a, ?b] \<noteq> []"
    by simp
  have fa: "find (\<lambda>r. \<forall>q \<in> set [?a, ?b].
              duration_seconds (details r) \<le> duration_seconds (details q)) [?a, ?b] = Some ?a"
    by simp
  have sa: "find (\<lambda>r. \<forall>q \<in> set [?a, ?b]. safetyScore q \<le> safetyScore r) [?a, ?b] = Some ?b"
    by simp
  let ?a' = "\<lparr>index = 0, type = fastest, safetyScore = 70, safetyGrade = C, coordinates = [],
      highRiskAreas = [], details = \<lparr>distance_meters = 1000, duration_seconds = 500\<rparr>\<rparr>"
  let ?b' = "\<lparr>index = 1, type = safest, safetyScore = 90, safetyGrade = A, coordinates = [],
      highRiskAreas = [], details = \<lparr>distance_meters = 1500, duration_seconds = 800\<rparr>\<rparr>"
  have sel: "selected_routes [?a, ?b] = [?a', ?b']"
    using selector_fastest_safest [OF h] fa sa by simp
  have dfl: "defaultRoute (selected_routes [?a, ?b]) = Some ?b'"
    using selector_fastest_safest [OF h] fa sa by simp
  show ?thesis
    using h sel dfl by blast
qed

subsection \<open>The grade of a processed route\<close>

lemma processedRoutes_fields:
  assumes "r \<in> set (processedRoutes cd routesData)"
  shows "safetyGrade r = getSafetyGrade (calculateRouteSafetyScore cd (coordinates r))
       \<and> safetyScore r = Math_round (calculateRouteSafetyScore cd (coordinates r))"
  using assms by (auto simp: processedRoutes_def processRoute_def Let_def)

lemma selected_routes_fields:
  assumes "ps \<noteq> []" and "r \<in> set (selected_routes ps)"
  shows "\<exists>p \<in> set ps. safetyGrade r = safetyGrade p \<and> safetyScore r = safetyScore p
           \<and> coordinates r = coordinates p"
proof -
  obtain fa sa where
    fa: "find (\<lambda>r. \<forall>q \<in> set ps.
              duration_seconds (details r) \<le> duration_seconds (details q)) ps = Some fa"
    and sa: "find (\<lambda>r. \<forall>q \<in> set ps. safetyScore q \<le> safetyScore r) ps = Some sa"
    and out: "selected_routes ps =
        (if distance_meters (details fa) = distance_meters (details sa)
            \<and> duration_seconds (details fa) = duration_seconds (details sa)
         then [fa\<lparr>index := 0, type := fastest_safest\<rparr>]
         else [fa\<lparr>index := 0, type := fastest\<rparr>, sa\<lparr>index := 1, type := safest\<rparr>])"
    using selected_routes_cases [OF assms(1)] by blast
  have "fa \<in> set ps" and "sa \<in> set ps"
    using fa sa by (auto simp: find_Some_iff)
  moreover have "r = fa\<lparr>index := 0, type := fastest_safest\<rparr> \<or> r = fa\<lparr>index := 0, type := fastest\<rparr>
      \<or> r = sa\<lparr>index := 1, type := safest\<rparr>"
    using assms(2) unfolding out by (auto split: if_splits)
  ultimately show ?thesis
    by auto
qed

lemma getSafetyGrade_mono:
  "x \<le> y \<Longrightarrow> grade_rank (getSafetyGrade x) \<le> grade_rank (getSafetyGrade y)"
  by (simp add: getSafetyGrade_def grade_rank_def)

lemma calculateRoute_Inr:
  assumes "calculateRoute cd routesData = Inr (routes, d)"
  shows "routesData \<noteq> []"
    and "routes = selected_routes (processedRoutes cd routesData)"
    and "defaultRoute routes = Some d"
  using assms
  by (auto simp: calculateRoute_def selected_routes_def Let_def split: if_splits option.splits)

lemma calculateRoute_example:
  "calculateRoute
     [\<lparr>incident_category = Some ''Noise'', incident_description = None,
       latitude = Some 0, longitude = Some 0\<rparr>]
     [\<lparr>geometry_coordinates = [(0, 0)], distance = 100, duration = 60\<rparr>]
   = Inr ([\<lparr>index = 0, type = fastest_safest, safetyScore = 90, safetyGrade = B,
            coordinates = [(0, 0)], highRiskAreas = [],
            details = \<lparr>distance_meters = 100, duration_seconds = 60\<rparr>\<rparr>],
          \<lparr>index = 0, type = fastest_safest, safetyScore = 90, safetyGrade = B,
            coordinates = [(0, 0)], highRiskAreas = [],
            details = \<lparr>distance_meters = 100, duration_seconds = 60\<rparr>\<rparr>)"
proof -
  let ?cd = "[\<lparr>incident_category = Some ''Noise'', incident_description = None,
       latitude = Some 0, longitude = Some (0::real)\<rparr>]"
  let ?p = "\<lparr>index = 0, type = alternative, safetyScore = 90, safetyGrade = B,
            coordinates = [(0, 0)], highRiskAreas = [],
            details = \<lparr>distance_meters = 100, duration_seconds = 60\<rparr>\<rparr>"
  let ?q = "\<lparr>index = 0, type = fastest_safest, safetyScore = 90, safetyGrade = B,
            coordinates = [(0, 0)], highRiskAreas = [],
            details = \<lparr>distance_meters = 100, duration_seconds = 60\<rparr>\<rparr>"
  have sc: "calculateRouteSafetyScore ?cd [(0, 0)] = 5393 / 60"
    by (simp add: calculateRouteSafetyScore_def samplePoints_def score_step_def eval_density)
  have ra: "identifyHighRiskAreas ?cd [(0, 0)] = []"
    by (simp add: identifyHighRiskAreas_def risk_step_def eval_density)
  have pr: "processedRoutes ?cd [\<lparr>geometry_coordinates = [(0, 0)], distance = 100, duration = 60\<rparr>]
      = [?p]"
    by (simp add: processedRoutes_def processRoute_def sc ra Math_round_def getSafetyGrade_def)
  have sel: "selectRoutes [?p] = ([0], [?q])"
    by (simp add: selectRoutes_def)
  have dfl: "defaultRoute [?q] = Some ?q"
    by (simp add: defaultRoute_def)
  show ?thesis
    by (simp add: calculateRoute_def pr sel dfl)
qed

text \<open>
  C8, as the specification states it, fails: for one incident of weight 1 at the only point
  of the only route the pipeline produces a route whose \<open>safetyScore\<close> field is 90 and
  whose \<open>safetyGrade\<close> field is \<open>B\<close>, while the threshold function gives \<open>A\<close> at 90.
\<close>

theorem grade_counterexample:
  "calculateRoute
     [\<lparr>incident_category = Some ''Noise'', incident_description = None,
       latitude = Some 0, longitude = Some 0\<rparr>]
     [\<lparr>geometry_coordinates = [(0, 0)], distance = 100, duration = 60\<rparr>]
   = Inr ([\<lparr>index = 0, type = fastest_safest, safetyScore = 90, safetyGrade = B,
            coordinates = [(0, 0)], highRiskAreas = [],
            details = \<lparr>distance_meters = 100, duration_seconds = 60\<rparr>\<rparr>],
          \<lparr>index = 0, type = fastest_safest, safetyScore = 90, safetyGrade = B,
            coordinates = [(0, 0)], highRiskAreas = [],
            details = \<lparr>distance_meters = 100, duration_seconds = 60\<rparr>\<rparr>)
   \<and> getSafetyGrade 90 = A"
  using calculateRoute_example by (simp add: getSafetyGrade_def)

text \<open>
  C8, amended. For every route that the pipeline produces, the \<open>safetyGrade\<close> field is the
  threshold function (at least 90 gives \<open>A\<close>, at least 80 \<open>B\<close>, at least 70 \<open>C\<close>, at least 60
  \<open>D\<close>, else \<open>F\<close>) of the unrounded score that the scorer returns for the route's
  coordinates, and the \<open>safetyScore\<close> field is that score rounded to the nearest integer.
  The threshold function is monotonic; 90 gives \<open>A\<close>, 89.9 \<open>B\<close>, 60 \<open>D\<close> and 59.9 \<open>F\<close>.
\<close>

theorem grade_of_unrounded_score:
  assumes "calculateRoute cd routesData = Inr (routes, d)"
  shows "(\<forall>r \<in> set (d # routes).
            safetyGrade r = getSafetyGrade (calculateRouteSafetyScore cd (coordinates r))
          \<and> safetyScore r = Math_round (calculateRouteSafetyScore cd (coordinates r)))
       \<and> (x \<le> y \<longrightarrow> grade_rank (getSafetyGrade x) \<le> grade_rank (getSafetyGrade y))
       \<and> (90 \<le> x \<longrightarrow> getSafetyGrade x = A)
       \<and> (80 \<le> x \<and> x < 90 \<longrightarrow> getSafetyGrade x = B)
       \<and> (70 \<le> x \<and> x < 80 \<longrightarrow> getSafetyGrade x = C)
       \<and> (60 \<le> x \<and> x < 70 \<longrightarrow> getSafetyGrade x = D)
       \<and> (x < 60 \<longrightarrow> getSafetyGrade x = F)
       \<and> getSafetyGrade 90 = A \<and> getSafetyGrade 89.9 = B
       \<and> getSafetyGrade 60 = D \<and> getSafetyGrade 59.9 = F"
proof -
  note cr = calculateRoute_Inr [OF assms]
  have ne: "processedRoutes cd routesData \<noteq> []"
    using cr(1) by (simp add: processedRoutes_def)
  have "d \<in> set routes"
    using cr(3) by (rule defaultRoute_in_set)
  then have sub: "set (d # routes) = set (selected_routes (processedRoutes cd routesData))"
    using cr(2) by auto
  have "safetyGrade r = getSafetyGrade (calculateRouteSafetyScore cd (coordinates r))
          \<and> safetyScore r = Math_round (calculateRouteSafetyScore cd (coordinates r))"
    if "r \<in> set (d # routes)" for r
  proof -
    from that sub selected_routes_fields [OF ne, of r]
    obtain p where p: "p \<in> set (processedRoutes cd routesData)"
      and eq: "safetyGrade r = safetyGrade p" "safetyScore r = safetyScore p"
        "coordinates r = coordinates p"
      by blast
    with processedRoutes_fields [OF p] show ?thesis
      by simp
  qed
  then show ?thesis
    using getSafetyGrade_mono [of x y] by (simp add: getSafetyGrade_def)
qed

theorem grade_of_unrounded_score_witness:
  "calculateRoute
     [\<lparr>incident_category = Some ''Noise'', incident_description = None,
       latitude = Some 0, longitude = Some 0\<rparr>]
     [\<lparr>geometry_coordinates = [(0, 0)], distance = 100, duration = 60\<rparr>]
   = Inr ([\<lparr>index = 0, type = fastest_safest, safetyScore = 90, safetyGrade = B,
            coordinates = [(0, 0)], highRiskAreas = [],
            details = \<lparr>distance_meters = 100, duration_seconds = 60\<rparr>\<rparr>],
          \<lparr>index = 0, type = fastest_safest, safetyScore = 90, safetyGrade = B,
            coordinates = [(0, 0)], highRiskAreas = [],
            details = \<lparr>distance_meters = 100, duration_seconds = 60\<rparr>\<rparr>)
   \<and> getSafetyGrade (calculateRouteSafetyScore
        [\<lparr>incident_category = Some ''Noise'', incident_description = None,
          latitude = Some 0, longitude = Some 0\<rparr>] [(0, 0)]) = B
   \<and> Math_round (calculateRouteSafetyScore
        [\<lparr>incident_category = Some ''Noise'', incident_description = None,
          latitude = Some 0, longitude = Some 0\<rparr>] [(0, 0)]) = 90"
  using grade_of_unrounded_score [OF calculateRoute_example] calculateRoute_example
  by simp

subsection \<open>Adding an incident at a sampled point\<close>

lemma score_unclamped:
  assumes "cs \<noteq> []" and "cd \<noteq> []"
  shows "calculateRouteSafetyScore cd cs =
           90 - (min (avg_density cd cs / 300) 1.5 * 20 + min (max_density cd cs / 500) 1.5 * 25)"
    and "0 \<le> avg_density cd cs" and "0 \<le> max_density cd cs"
proof -
  let ?ds = "sampled_densities cd cs"
  have ne: "?ds \<noteq> []"
    using samplePoints_nonempty [OF assms(1)] by (simp add: sampled_densities_map)
  have nn: "\<forall>x \<in> set ?ds. 0 \<le> x"
    by (auto simp: sampled_densities_map point_density_def density_nonneg)
  have "0 \<le> sum_list ?ds"
    using nn by (simp add: sum_list_nonneg)
  then show a0: "0 \<le> avg_density cd cs"
    by (simp add: avg_density_def)
  have "max_density cd cs \<in> set ?ds"
    unfolding max_density_def using ne by (intro Max_in) auto
  then show m0: "0 \<le> max_density cd cs"
    using nn by blast
  have "calculateRouteSafetyScore cd cs =
          max 0 (min 100 (90 - (min (avg_density cd cs / 300) 1.5 * 20
                                + min (max_density cd cs / 500) 1.5 * 25)))"
    unfolding avg_density_def max_density_def by (rule score_formula [OF assms])
  then show "calculateRouteSafetyScore cd cs =
           90 - (min (avg_density cd cs / 300) 1.5 * 20 + min (max_density cd cs / 500) 1.5 * 25)"
    using a0 m0 by (simp add: max_def min_def)
qed

lemma point_density_insert:
  "point_density (xs @ c # ys) p =
     point_density (xs @ ys) p
       + (if js_gt (crime_distance c (fst p) (snd p)) default_radius then 0 else crime_weight c)"
  by (simp add: point_density_def density_sum)

lemma sum_list_map_strict:
  fixes f g :: "'a \<Rightarrow> real"
  assumes "\<forall>k \<in> set ks. f k \<le> g k" and "j \<in> set ks" and "f j < g j"
  shows "sum_list (map f ks) < sum_list (map g ks)"
proof -
  obtain as bs where ks: "ks = as @ j # bs"
    using assms(2) by (auto dest: split_list)
  have "sum_list (map f as) \<le> sum_list (map g as)"
    using assms(1) ks by (intro sum_list_mono) simp
  moreover have "sum_list (map f bs) \<le> sum_list (map g bs)"
    using assms(1) ks by (intro sum_list_mono) simp
  ultimately show ?thesis
    using assms(3) by (simp add: ks)
qed

lemma Max_map_mono:
  fixes f g :: "'a \<Rightarrow> real"
  assumes "ks \<noteq> []" and "\<forall>k \<in> set ks. f k \<le> g k"
  shows "Max (set (map f ks)) \<le> Max (set (map g ks))"
proof -
  have "a \<le> Max (set (map g ks))" if "a \<in> set (map f ks)" for a
  proof -
    from that obtain k where k: "k \<in> set ks" and a: "a = f k"
      by auto
    have "g k \<le> Max (set (map g ks))"
      using k by (intro Max_ge) auto
    moreover have "f k \<le> g k"
      using assms(2) k by blast
    ultimately show ?thesis
      unfolding a by (rule order_trans [rotated])
  qed
  then show ?thesis
    using assms(1) by (intro Max.boundedI) auto
qed

lemma single_point_score:
  assumes "cd \<noteq> []"
  shows "calculateRouteSafetyScore cd [p] =
          max 0 (min 100 (90 - (min (point_density cd p / 300) 1.5 * 20
                                + min (point_density cd p / 500) 1.5 * 25)))"
proof -
  have "samplePoints [p] = [p]"
    by (simp add: samplePoints_def)
  then show ?thesis
    using assms density_nonneg [of cd "fst p" "snd p" default_radius]
    by (simp add: calculateRouteSafetyScore_def score_step_def point_density_def Let_def)
qed

lemma density_replicate:
  "calculateCrimeDensity (replicate n c) la lo radius =
     (if js_gt (crime_distance c la lo) radius then 0 else real n * crime_weight c)"
  by (simp add: density_sum sum_list_replicate)

text \<open>
  C9, as the specification states it, fails twice. With no incident the score is the
  default 85, and one assault at the only point of the route raises it to \<open>1336 / 15\<close>.
  With 94 assaults at the point both normalised terms are capped and the score is
  \<open>45 / 2\<close>; one more assault leaves it there, equal and not 0.
\<close>

theorem added_incident_counterexample:
  "calculateRouteSafetyScore [] [(0, 0)] = 85
   \<and> calculateRouteSafetyScore
        [\<lparr>incident_category = Some ''Assault'', incident_description = None,
          latitude = Some 0, longitude = Some 0\<rparr>] [(0, 0)] = 1336 / 15
   \<and> calculateRouteSafetyScore
        (replicate 94 \<lparr>incident_category = Some ''Assault'', incident_description = None,
                        latitude = Some 0, longitude = Some 0\<rparr>) [(0, 0)] = 45 / 2
   \<and> calculateRouteSafetyScore
        (\<lparr>incident_category = Some ''Assault'', incident_description = None,
           latitude = Some 0, longitude = Some 0\<rparr>
         # replicate 94 \<lparr>incident_category = Some ''Assault'', incident_description = None,
                          latitude = Some 0, longitude = Some 0\<rparr>) [(0, 0)] = 45 / 2"
proof -
  let ?c = "\<lparr>incident_category = Some ''Assault'', incident_description = None,
             latitude = Some 0, longitude = Some (0::real)\<rparr>"
  have w: "crime_weight ?c = 8"
    by (simp add: crime_weight_def toLowerCase_def toLowerCase_char_def or_str_def)
  have near: "\<not> js_gt (crime_distance ?c 0 0) default_radius"
    by (simp add: js_gt_distance default_radius_def)
  have "calculateCrimeDensity (replicate 94 ?c) 0 0 default_radius = real 94 * 8"
    by (simp only: density_replicate near w if_False)
  then have d94: "calculateCrimeDensity (replicate 94 ?c) 0 0 default_radius = 752"
    by simp
  have c95: "?c # replicate 94 ?c = replicate 95 ?c"
    by (simp add: eval_nat_numeral)
  have "calculateCrimeDensity (?c # replicate 94 ?c) 0 0 default_radius = real 95 * 8"
    by (simp only: c95 density_replicate near w if_False)
  then have d95: "calculateCrimeDensity (?c # replicate 94 ?c) 0 0 default_radius = 760"
    by simp
  have a: "calculateRouteSafetyScore [] [(0, 0)] = 85"
    by (simp add: calculateRouteSafetyScore_def)
  have b: "calculateRouteSafetyScore [?c] [(0, 0)] = 1336 / 15"
    by (simp add: calculateRouteSafetyScore_def samplePoints_def score_step_def eval_density)
  have c: "calculateRouteSafetyScore (replicate 94 ?c) [(0, 0)] = 45 / 2"
    using single_point_score [of "replicate 94 ?c" "(0, 0)"]
    by (simp add: point_density_def d94 del: replicate.simps)
  have d: "calculateRouteSafetyScore (?c # replicate 94 ?c) [(0, 0)] = 45 / 2"
    using single_point_score [of "?c # replicate 94 ?c" "(0, 0)"]
    by (simp add: point_density_def d95 del: replicate.simps)
  from a b c d show ?thesis
    by blast
qed

text \<open>
  C9, amended. For every polyline and every non-empty incident list, adding one incident
  located exactly at a sampled route point never raises the score; it lowers the score
  strictly whenever the mean sampled density before the addition is below 450, where the
  normalised mean is not yet capped; a score at the floor 22.5 stays there. The score never
  reaches 0.
\<close>

theorem added_incident_lowers_score:
  assumes "xs @ ys \<noteq> []"
    and "i < length cs" and "5 dvd i"
    and "latitude c = Some (fst (cs ! i))" and "longitude c = Some (snd (cs ! i))"
  shows "calculateRouteSafetyScore (xs @ c # ys) cs \<le> calculateRouteSafetyScore (xs @ ys) cs
     \<and> (avg_density (xs @ ys) cs < 450 \<longrightarrow>
          calculateRouteSafetyScore (xs @ c # ys) cs < calculateRouteSafetyScore (xs @ ys) cs)
     \<and> (calculateRouteSafetyScore (xs @ ys) cs = 22.5 \<longrightarrow>
          calculateRouteSafetyScore (xs @ c # ys) cs = 22.5)
     \<and> 22.5 \<le> calculateRouteSafetyScore (xs @ c # ys) cs"
proof -
  let ?old = "xs @ ys" and ?new = "xs @ c # ys"
  let ?ks = "sample_indices 5 (length cs)"
  have cs: "cs \<noteq> []"
    using assms(2) by auto
  have new: "?new \<noteq> []"
    by simp
  have i_in: "i \<in> set ?ks"
    using assms(2,3) by (simp add: set_sample_indices)
  have ks: "?ks \<noteq> []"
    using i_in by auto
  have w: "1 \<le> crime_weight c"
    by (rule crime_weight_pos)
  have mono: "point_density ?old p \<le> point_density ?new p" for p
    using w by (simp add: point_density_insert)
  have "crime_distance c (fst (cs ! i)) (snd (cs ! i)) = Some 0"
    using assms(4,5) by (simp add: crime_distance_def)
  then have strict: "point_density ?old (cs ! i) < point_density ?new (cs ! i)"
    using w by (simp add: point_density_insert js_gt_def default_radius_def)
  have len: "length (sampled_densities ?new cs) = length (sampled_densities ?old cs)"
    by (simp add: sampled_densities_def)
  have pos: "0 < real (length (sampled_densities ?old cs))"
    using ks by (simp add: sampled_densities_def)
  have "sum_list (sampled_densities ?old cs) < sum_list (sampled_densities ?new cs)"
    unfolding sampled_densities_def
    using mono strict i_in by (intro sum_list_map_strict [where j = i]) auto
  then have avg: "avg_density ?old cs < avg_density ?new cs"
    unfolding avg_density_def len using pos by (simp add: divide_strict_right_mono)
  have mx: "max_density ?old cs \<le> max_density ?new cs"
    unfolding max_density_def sampled_densities_def
    using ks mono by (intro Max_map_mono) auto
  note old = score_unclamped [OF cs assms(1)]
  note new = score_unclamped [OF cs new]
  have a0: "0 \<le> avg_density ?old cs" and m0: "0 \<le> max_density ?old cs"
    by (rule old(2), rule old(3))
  show ?thesis
    unfolding old(1) new(1) using avg mx a0 m0
    by (auto simp: min_def)
qed


theorem added_incident_lowers_score_witness:
  "[] @ [incident_at ''Assault'' 1 1] \<noteq> []
   \<and> (0::nat) < length [(0::real, 0::real)] \<and> (5::nat) dvd 0
   \<and> latitude (incident_at ''Assault'' 0 0) = Some (fst ([(0::real, 0::real)] ! 0))
   \<and> longitude (incident_at ''Assault'' 0 0) = Some (snd ([(0::real, 0::real)] ! 0))
   \<and> avg_density ([] @ [incident_at ''Assault'' 1 1]) [(0, 0)] < 450
   \<and> calculateRouteSafetyScore ([] @ incident_at ''Assault'' 0 0 # [incident_at ''Assault'' 1 1])
         [(0, 0)]
       < calculateRouteSafetyScore ([] @ [incident_at ''Assault'' 1 1]) [(0, 0)]"
proof -
  let ?c = "incident_at ''Assault'' 0 0"
  let ?c1 = "incident_at ''Assault'' 1 1"
  let ?cs = "[(0::real, 0::real)]"
  have h1: "[] @ [?c1] \<noteq> []"
    and h2: "(0::nat) < length ?cs" and h3: "(5::nat) dvd 0"
    and h4: "latitude ?c = Some (fst (?cs ! 0))" and h5: "longitude ?c = Some (snd (?cs ! 0))"
    by (simp_all add: incident_at_def)
  have "sample_indices 5 (length ?cs) = [0]"
    by (simp add: sample_indices_def)
  then have a: "avg_density ([] @ [?c1]) ?cs < 450"
    by (simp add: avg_density_def sampled_densities_def point_density_def eval_density
        incident_at_def)
  from added_incident_lowers_score [OF h1 h2 h3 h4 h5] a
  have r: "calculateRouteSafetyScore ([] @ ?c # [?c1]) ?cs
          < calculateRouteSafetyScore ([] @ [?c1]) ?cs"
    by blast
  show ?thesis
    by (intro conjI) (rule h1 h2 h3 h4 h5 a r)+
qed

end
